theory Spec2Isabelle
  imports
    Complex_Main
    "HOL-Library.AList"
    "HOL-Library.Char_ord"
    "HOL-Library.List_Lexorder"
    "HOL-Library.Product_Lexorder"
begin

section \<open>JSON values and JavaScript objects\<close>

text \<open>
  The gateway (\<^verbatim>\<open>azure-function/SecureDataAPI/index.js\<close>) stores and serves parsed JSON.
  A JSON object is an association list in insertion order; a property is read with
  \<open>map_of\<close> and assigned with \<open>AList.update\<close>, which overwrites in place or appends, as
  an assignment to a JavaScript object does. A value that may be \<^verbatim>\<open>undefined\<close> is an
  \<open>option\<close>. Numbers are rationals: the gateway only tests them for truthiness.
\<close>

datatype json =
    JNull
  | JBool bool
  | JNum rat
  | JStr string
  | JArr "json list"
  | JObj "(string \<times> json) list"

text \<open>JavaScript truthiness of a JSON value; \<^verbatim>\<open>undefined\<close> (\<open>None\<close>) is falsy.\<close>

fun truthy :: "json \<Rightarrow> bool" where
  "truthy JNull = False"
| "truthy (JBool b) = b"
| "truthy (JNum n) = (n \<noteq> 0)"
| "truthy (JStr s) = (s \<noteq> [])"
| "truthy (JArr xs) = True"
| "truthy (JObj fs) = True"

definition truthyOpt :: "json option \<Rightarrow> bool" where
  "truthyOpt v = (case v of None \<Rightarrow> False | Some j \<Rightarrow> truthy j)"

text \<open>\<^verbatim>\<open>Array.isArray\<close>.\<close>

fun isArray :: "json \<Rightarrow> bool" where
  "isArray (JArr xs) = True"
| "isArray v = False"

text \<open>
  Truthiness of a string that may be \<^verbatim>\<open>undefined\<close> (a header, a route parameter): the
  string when it is present and not empty.
\<close>

definition truthyStr :: "string option \<Rightarrow> string option" where
  "truthyStr v = (case v of None \<Rightarrow> None | Some s \<Rightarrow> if s = [] then None else Some s)"

text \<open>Decimal rendering of an array index, for the keys a spread array or string yields.\<close>

function string_of_nat :: "nat \<Rightarrow> string" where
  "string_of_nat n =
     (if n < 10 then [''0123456789'' ! n]
      else string_of_nat (n div 10) @ [''0123456789'' ! (n mod 10)])"
  by pat_completeness auto
termination
  by (relation "measure (\<lambda>n. n)") auto

declare string_of_nat.simps [simp del]

section \<open>Key/role resolver and permission table\<close>

text \<open>\<^verbatim>\<open>apiKey.split('-')\<close>: always at least one segment.\<close>

fun split_dash :: "string \<Rightarrow> string list" where
  "split_dash [] = [[]]"
| "split_dash (c # cs) =
     (if c = CHR ''-'' then [] # split_dash cs
      else (case split_dash cs of [] \<Rightarrow> [[c]] | p # ps \<Rightarrow> (c # p) # ps))"

text \<open>\<^verbatim>\<open>getRoleFromKey\<close>: \<open>None\<close> is the \<^verbatim>\<open>null\<close> the source returns.\<close>

definition getRoleFromKey :: "string \<Rightarrow> string option" where
  "getRoleFromKey apiKey =
     (let parts = split_dash apiKey in
      if length parts \<ge> 2 \<and> hd parts = ''ses'' then Some (parts ! 1) else None)"

datatype operation = Read | Write | Delete

record perms =
  p_read :: "string list"
  p_write :: "string list"
  p_delete :: "string list"

fun perms_of :: "perms \<Rightarrow> operation \<Rightarrow> string list" where
  "perms_of p Read = p_read p"
| "perms_of p Write = p_write p"
| "perms_of p Delete = p_delete p"

definition FILE_PERMISSIONS :: "(string \<times> perms) list" where
  "FILE_PERMISSIONS =
   [(''admin'', \<lparr>
       p_read = [''clients.json'', ''users.json'', ''contracts.json'', ''lmp-database.json'',
                 ''accounts.json'', ''energy-profiles.json'', ''activity-log.json'',
                 ''usage-profiles.json'', ''tickets.json'', ''widget-preferences.json''],
       p_write = [''clients.json'', ''users.json'', ''contracts.json'', ''lmp-database.json'',
                  ''accounts.json'', ''energy-profiles.json'', ''activity-log.json'',
                  ''usage-profiles.json'', ''tickets.json'', ''widget-preferences.json''],
       p_delete = [''energy-profiles.json'', ''tickets.json'']\<rparr>),
    (''ae'', \<lparr>
       p_read = [''clients.json'', ''contracts.json'', ''accounts.json'',
                 ''energy-profiles.json'', ''usage-profiles.json''],
       p_write = [''energy-profiles.json'', ''contracts.json'', ''usage-profiles.json''],
       p_delete = [''energy-profiles.json'']\<rparr>),
    (''widget'', \<lparr>
       p_read = [''clients.json'', ''accounts.json'', ''energy-profiles.json'',
                 ''usage-profiles.json'', ''widget-preferences.json'', ''activity-log.json''],
       p_write = [''energy-profiles.json'', ''usage-profiles.json'',
                  ''widget-preferences.json'', ''activity-log.json''],
       p_delete = []\<rparr>),
    (''workflow'', \<lparr>
       p_read = [''lmp-database.json''],
       p_write = [''lmp-database.json''],
       p_delete = []\<rparr>),
    (''readonly'', \<lparr>
       p_read = [''lmp-database.json''],
       p_write = [],
       p_delete = []\<rparr>)]"

text \<open>
  \<^verbatim>\<open>FILE_PERMISSIONS[role]\<close> is a property read on an object literal, so besides the five
  own entries it finds what every object inherits from \<^verbatim>\<open>Object.prototype\<close>: a truthy
  value that is no permission entry and has no \<^verbatim>\<open>read\<close>, \<^verbatim>\<open>write\<close> or \<^verbatim>\<open>delete\<close>
  property.
\<close>

definition objectPrototypeKeys :: "string list" where
  "objectPrototypeKeys =
   [''constructor'', ''__proto__'', ''hasOwnProperty'', ''isPrototypeOf'',
    ''propertyIsEnumerable'', ''toLocaleString'', ''toString'', ''valueOf'',
    ''__defineGetter__'', ''__defineSetter__'', ''__lookupGetter__'', ''__lookupSetter__'']"

datatype 'a js_lookup = Own 'a | Inherited | Undefined

definition lookupPermissions :: "string \<Rightarrow> perms js_lookup" where
  "lookupPermissions role =
     (case map_of FILE_PERMISSIONS role of
        Some p \<Rightarrow> Own p
      | None \<Rightarrow> if role \<in> set objectPrototypeKeys then Inherited else Undefined)"

text \<open>
  \<^verbatim>\<open>hasPermission(apiKey, filename, operation)\<close>. \<^verbatim>\<open>!role\<close> holds of \<^verbatim>\<open>null\<close> and of the
  empty string; an inherited property passes the \<^verbatim>\<open>!FILE_PERMISSIONS[role]\<close> test and then
  yields \<^verbatim>\<open>undefined || []\<close>.
\<close>

definition hasPermission :: "string \<Rightarrow> string \<Rightarrow> operation \<Rightarrow> bool" where
  "hasPermission apiKey fname operation =
     (case getRoleFromKey apiKey of
        None \<Rightarrow> False
      | Some role \<Rightarrow>
          if role = [] then False
          else (case lookupPermissions role of
                  Undefined \<Rightarrow> False
                | Inherited \<Rightarrow> fname \<in> set []
                | Own p \<Rightarrow> fname \<in> set (perms_of p operation)))"

text \<open>
  The permission table as the specification words it: the allow-set of a role and an
  operation, empty for a role the table does not list.
\<close>

definition allowSet :: "string \<Rightarrow> operation \<Rightarrow> string set" where
  "allowSet role operation =
     (case map_of FILE_PERMISSIONS role of
        None \<Rightarrow> {}
      | Some p \<Rightarrow> set (perms_of p operation))"

definition roleInTable :: "string \<Rightarrow> bool" where
  "roleInTable role = (role \<in> fst ` set FILE_PERMISSIONS)"

section \<open>Document store adapter\<close>

text \<open>
  The blob container maps a document name to the JSON value its blob holds. Blobs are
  taken to hold valid JSON and the storage service to answer: a transport failure or an
  unparsable blob is an exception of the SDK, outside this model. \<^verbatim>\<open>getBlob\<close> returns
  \<^verbatim>\<open>null\<close> for a missing blob, and so it also does for a blob that holds JSON \<^verbatim>\<open>null\<close>.
\<close>

type_synonym store = "string \<rightharpoonup> json"

datatype error = TypeError string

definition getBlob :: "store \<Rightarrow> string \<Rightarrow> json" where
  "getBlob st fname = (case st fname of None \<Rightarrow> JNull | Some d \<Rightarrow> d)"

text \<open>
  \<^verbatim>\<open>saveBlob\<close>: \<^verbatim>\<open>JSON.stringify(undefined)\<close> is \<^verbatim>\<open>undefined\<close>, on which
  \<^verbatim>\<open>Buffer.byteLength\<close> throws a \<^verbatim>\<open>TypeError\<close> before anything is uploaded.
\<close>

definition saveBlob :: "store \<Rightarrow> string \<Rightarrow> json option \<Rightarrow> error + store" where
  "saveBlob st fname data =
     (case data of
        None \<Rightarrow> Inl (TypeError ''The string argument must be of type string. Received undefined'')
      | Some d \<Rightarrow> Inr (st(fname \<mapsto> d)))"

definition deleteBlob :: "store \<Rightarrow> string \<Rightarrow> bool \<times> store" where
  "deleteBlob st fname =
     (case st fname of None \<Rightarrow> (False, st) | Some d \<Rightarrow> (True, st(fname := None)))"

section \<open>Record locator\<close>

text \<open>
  \<^verbatim>\<open>item.id === recordId || item._id === recordId || item.profileId === recordId\<close>.
  Reading a property of \<^verbatim>\<open>null\<close> throws; on a number, a boolean, a string or an array
  these three properties are \<^verbatim>\<open>undefined\<close>. The route parameter is a string and
  \<^verbatim>\<open>===\<close> does not coerce, so only a string-valued field can match.
\<close>

fun getProp :: "json \<Rightarrow> string \<Rightarrow> json option" where
  "getProp (JObj fs) k = map_of fs k"
| "getProp v k = None"

definition matchesId :: "json \<Rightarrow> string \<Rightarrow> error + bool" where
  "matchesId item recordId =
     (if item = JNull then Inl (TypeError ''Cannot read properties of null'')
      else Inr (getProp item ''id'' = Some (JStr recordId)
              \<or> getProp item ''_id'' = Some (JStr recordId)
              \<or> getProp item ''profileId'' = Some (JStr recordId)))"

text \<open>\<^verbatim>\<open>data.find(...)\<close>: the first match; the scan stops there.\<close>

fun findRecord :: "json list \<Rightarrow> string \<Rightarrow> error + json option" where
  "findRecord [] recordId = Inr None"
| "findRecord (x # xs) recordId =
     (case matchesId x recordId of
        Inl e \<Rightarrow> Inl e
      | Inr m \<Rightarrow> if m then Inr (Some x) else findRecord xs recordId)"

text \<open>\<^verbatim>\<open>existingData.findIndex(...)\<close>; \<open>None\<close> is the source's \<^verbatim>\<open>-1\<close>.\<close>

fun findRecordIndex :: "json list \<Rightarrow> string \<Rightarrow> error + nat option" where
  "findRecordIndex [] recordId = Inr None"
| "findRecordIndex (x # xs) recordId =
     (case matchesId x recordId of
        Inl e \<Rightarrow> Inl e
      | Inr m \<Rightarrow>
          if m then Inr (Some 0)
          else (case findRecordIndex xs recordId of
                  Inl e \<Rightarrow> Inl e
                | Inr None \<Rightarrow> Inr None
                | Inr (Some i) \<Rightarrow> Inr (Some (Suc i))))"

text \<open>\<^verbatim>\<open>existingData.filter(...)\<close> of the DELETE branch: keeps the items that do not match.\<close>

fun removeRecords :: "json list \<Rightarrow> string \<Rightarrow> error + json list" where
  "removeRecords [] recordId = Inr []"
| "removeRecords (x # xs) recordId =
     (case matchesId x recordId of
        Inl e \<Rightarrow> Inl e
      | Inr m \<Rightarrow>
          (case removeRecords xs recordId of
             Inl e \<Rightarrow> Inl e
           | Inr ys \<Rightarrow> Inr (if m then ys else x # ys)))"

section \<open>Object spread\<close>

text \<open>
  The own enumerable properties \<^verbatim>\<open>{...v}\<close> copies: the fields of an object, the indexed
  elements of an array or a string, nothing for \<^verbatim>\<open>undefined\<close>, \<^verbatim>\<open>null\<close>, a number or a
  boolean.
\<close>

fun ownEntries :: "json option \<Rightarrow> (string \<times> json) list" where
  "ownEntries (Some (JObj fs)) = fs"
| "ownEntries (Some (JArr xs)) = zip (map string_of_nat [0..<length xs]) xs"
| "ownEntries (Some (JStr s)) = zip (map string_of_nat [0..<length s]) (map (\<lambda>c. JStr [c]) s)"
| "ownEntries v = []"

definition assignAll :: "(string \<times> json) list \<Rightarrow> (string \<times> json) list \<Rightarrow> (string \<times> json) list" where
  "assignAll obj entries = foldl (\<lambda>acc kv. AList.update (fst kv) (snd kv) acc) obj entries"

text \<open>
  A property written with a value that may be \<^verbatim>\<open>undefined\<close>. Every object the gateway
  builds is serialised by \<^verbatim>\<open>JSON.stringify\<close> (into the blob and into the response), which
  drops a property whose value is \<^verbatim>\<open>undefined\<close>: writing \<^verbatim>\<open>undefined\<close> removes the key.
\<close>

definition forceProp :: "string \<Rightarrow> json option \<Rightarrow> (string \<times> json) list \<Rightarrow> (string \<times> json) list" where
  "forceProp k v obj = (case v of None \<Rightarrow> AList.delete k obj | Some x \<Rightarrow> AList.update k x obj)"

definition roleJson :: "string \<Rightarrow> json" where
  "roleJson apiKey = (case getRoleFromKey apiKey of None \<Rightarrow> JNull | Some r \<Rightarrow> JStr r)"

section \<open>CRUD gateway\<close>

text \<open>
  A request as the handler reads it: \<^verbatim>\<open>req.method\<close>, \<^verbatim>\<open>req.headers\<close>,
  \<^verbatim>\<open>req.params.filename\<close>, \<^verbatim>\<open>req.params.id\<close> and \<^verbatim>\<open>req.body\<close>. The environment gives
  \<^verbatim>\<open>new Date().toISOString()\<close> and what \<^verbatim>\<open>generateId()\<close> would return (a non-empty
  string); the configuration is \<^verbatim>\<open>VALID_API_KEYS\<close>, split and trimmed. The response keeps
  the status and the body before serialisation; the CORS headers are left out.
\<close>

record request =
  req_method :: string
  req_headers :: "(string \<times> string) list"
  req_filename :: "string option"
  req_id :: "string option"
  req_body :: "json option"

record config =
  validKeys :: "string list"

record env =
  nowIso :: string
  freshId :: string

record response =
  status :: nat
  body :: "json option"

definition jsonError :: "nat \<Rightarrow> string \<Rightarrow> string \<Rightarrow> response" where
  "jsonError code err msg =
     \<lparr>status = code, body = Some (JObj [(''error'', JStr err), (''message'', JStr msg)])\<rparr>"

definition jsonOk :: "nat \<Rightarrow> json \<Rightarrow> response" where
  "jsonOk code v = \<lparr>status = code, body = Some v\<rparr>"

text \<open>\<^verbatim>\<open>req.headers['x-api-key'] || req.headers['X-API-Key']\<close>.\<close>

definition apiKeyHeader :: "request \<Rightarrow> string option" where
  "apiKeyHeader req =
     (case truthyStr (map_of (req_headers req) ''x-api-key'') of
        Some k \<Rightarrow> Some k
      | None \<Rightarrow> map_of (req_headers req) ''X-API-Key'')"

definition operationOf :: "string \<Rightarrow> operation" where
  "operationOf m =
     (if m = ''GET'' then Read
      else if m \<in> set [''POST'', ''PUT'', ''PATCH''] then Write
      else Delete)"

fun operationName :: "operation \<Rightarrow> string" where
  "operationName Read = ''read''"
| "operationName Write = ''write''"
| "operationName Delete = ''delete''"

text \<open>The GET branch.\<close>

definition handleGet :: "store \<Rightarrow> string \<Rightarrow> string option \<Rightarrow> error + response \<times> store" where
  "handleGet st fname recordId =
     (let data = getBlob st fname in
      if data = JNull then Inr (jsonError 404 ''Not Found'' (fname @ '' not found.''), st)
      else (case truthyStr recordId of
              None \<Rightarrow> Inr (jsonOk 200 data, st)
            | Some rid \<Rightarrow>
                (case data of
                   JArr xs \<Rightarrow>
                     (case findRecord xs rid of
                        Inl e \<Rightarrow> Inl e
                      | Inr None \<Rightarrow>
                          Inr (jsonError 404 ''Not Found'' (''Record '' @ rid @ '' not found.''), st)
                      | Inr (Some r) \<Rightarrow> Inr (jsonOk 200 r, st))
                 | _ \<Rightarrow> Inr (jsonOk 200 data, st))))"

text \<open>
  The record a POST appends:
  \<^verbatim>\<open>{...newData, id: newData.id || generateId(), createdAt: ..., createdBy: ...}\<close>.
\<close>

definition createdRecord :: "(string \<times> json) list \<Rightarrow> env \<Rightarrow> string \<Rightarrow> json" where
  "createdRecord newData ev apiKey =
     JObj (AList.update ''createdBy'' (roleJson apiKey)
          (AList.update ''createdAt'' (JStr (nowIso ev))
          (AList.update ''id''
             (case map_of newData ''id'' of
                None \<Rightarrow> JStr (freshId ev)
              | Some v \<Rightarrow> if truthy v then v else JStr (freshId ev))
          (assignAll [] newData))))"

text \<open>
  The POST branch. A truthy body with \<^verbatim>\<open>typeof newData === 'object'\<close> that is no array is
  a JSON object.
\<close>

definition handlePost ::
    "store \<Rightarrow> env \<Rightarrow> string \<Rightarrow> string \<Rightarrow> json option \<Rightarrow> error + response \<times> store" where
  "handlePost st ev apiKey fname newData =
     (let replaceFile =
            (case saveBlob st fname newData of
               Inl e \<Rightarrow> Inl e
             | Inr st' \<Rightarrow>
                 Inr (jsonOk 201 (JObj [(''success'', JBool True), (''message'', JStr ''File saved.'')]),
                      st'))
      in
      if truthyOpt newData then
        (case newData of
           Some (JObj fs) \<Rightarrow>
             (let loaded = getBlob st fname;
                  existingData = (if loaded = JNull then JArr [] else loaded)
              in case existingData of
                   JArr xs \<Rightarrow>
                     (let rec = createdRecord fs ev apiKey in
                      case saveBlob st fname (Some (JArr (xs @ [rec]))) of
                        Inl e \<Rightarrow> Inl e
                      | Inr st' \<Rightarrow>
                          Inr (jsonOk 201 (JObj [(''success'', JBool True),
                                                 (''message'', JStr ''Record created.''),
                                                 (''record'', rec)]),
                               st'))
                 | _ \<Rightarrow> replaceFile)
         | _ \<Rightarrow> replaceFile)
      else Inr (jsonError 400 ''Bad Request'' ''Request body required.'', st))"

text \<open>
  The record a PUT writes back:
  \<^verbatim>\<open>{...existing, ...updateData, id: existing.id, createdAt: existing.createdAt,
  updatedAt: ..., updatedBy: ...}\<close>.
\<close>

definition updatedRecord :: "json \<Rightarrow> json option \<Rightarrow> env \<Rightarrow> string \<Rightarrow> json" where
  "updatedRecord existing updateData ev apiKey =
     JObj (AList.update ''updatedBy'' (roleJson apiKey)
          (AList.update ''updatedAt'' (JStr (nowIso ev))
          (forceProp ''createdAt'' (getProp existing ''createdAt'')
          (forceProp ''id'' (getProp existing ''id'')
          (assignAll (assignAll [] (ownEntries (Some existing))) (ownEntries updateData))))))"

text \<open>The PUT branch: no body check on either path.\<close>

definition handlePut ::
    "store \<Rightarrow> env \<Rightarrow> string \<Rightarrow> string \<Rightarrow> string option \<Rightarrow> json option
      \<Rightarrow> error + response \<times> store" where
  "handlePut st ev apiKey fname recordId reqBody =
     (case truthyStr recordId of
        None \<Rightarrow>
          (case saveBlob st fname reqBody of
             Inl e \<Rightarrow> Inl e
           | Inr st' \<Rightarrow>
               Inr (jsonOk 200 (JObj [(''success'', JBool True),
                                      (''message'', JStr ''File replaced''),
                                      (''filename'', JStr fname)]),
                    st'))
      | Some rid \<Rightarrow>
          (case getBlob st fname of
             JArr xs \<Rightarrow>
               (case findRecordIndex xs rid of
                  Inl e \<Rightarrow> Inl e
                | Inr None \<Rightarrow>
                    Inr (jsonError 404 ''Not Found'' (''Record '' @ rid @ '' not found.''), st)
                | Inr (Some i) \<Rightarrow>
                    (let rec = updatedRecord (xs ! i) reqBody ev apiKey in
                     case saveBlob st fname (Some (JArr (xs[i := rec]))) of
                       Inl e \<Rightarrow> Inl e
                     | Inr st' \<Rightarrow>
                         Inr (jsonOk 200 (JObj [(''success'', JBool True),
                                                (''message'', JStr ''Record updated.''),
                                                (''record'', rec)]),
                              st')))
           | _ \<Rightarrow> Inr (jsonError 400 ''Bad Request'' ''File is not an array.'', st)))"

text \<open>The DELETE branch.\<close>

definition handleDelete :: "store \<Rightarrow> string \<Rightarrow> string option \<Rightarrow> error + response \<times> store" where
  "handleDelete st fname recordId =
     (case truthyStr recordId of
        Some rid \<Rightarrow>
          (case getBlob st fname of
             JArr xs \<Rightarrow>
               (case removeRecords xs rid of
                  Inl e \<Rightarrow> Inl e
                | Inr ys \<Rightarrow>
                    if length ys = length xs then
                      Inr (jsonError 404 ''Not Found'' (''Record '' @ rid @ '' not found.''), st)
                    else
                      (case saveBlob st fname (Some (JArr ys)) of
                         Inl e \<Rightarrow> Inl e
                       | Inr st' \<Rightarrow>
                           Inr (jsonOk 200 (JObj [(''success'', JBool True),
                                                  (''message'', JStr ''Record deleted.'')]),
                                st')))
           | _ \<Rightarrow>
               Inr (jsonError 400 ''Bad Request'' ''Cannot delete record from non-array.'', st))
      | None \<Rightarrow>
          (let r = deleteBlob st fname in
           Inr (jsonOk (if fst r then 200 else 404)
                  (JObj [(''success'', JBool (fst r)),
                         (''message'', JStr (if fst r then ''File deleted.'' else ''File not found.''))]),
                snd r)))"

text \<open>
  The \<^verbatim>\<open>try\<close> block: one branch per method; a method with no branch (PATCH among them)
  leaves \<^verbatim>\<open>context.res\<close> unset, which is \<open>None\<close>.
\<close>

definition dispatch ::
    "store \<Rightarrow> env \<Rightarrow> request \<Rightarrow> string \<Rightarrow> string \<Rightarrow> error + response option \<times> store" where
  "dispatch st ev req apiKey fname =
     (let some = map_sum id (\<lambda>r. (Some (fst r), snd r)) in
      if req_method req = ''GET'' then some (handleGet st fname (req_id req))
      else if req_method req = ''POST'' then some (handlePost st ev apiKey fname (req_body req))
      else if req_method req = ''PUT'' then
        some (handlePut st ev apiKey fname (req_id req) (req_body req))
      else if req_method req = ''DELETE'' then some (handleDelete st fname (req_id req))
      else Inr (None, st))"

text \<open>
  The \<^verbatim>\<open>catch\<close> clause: status 500 with the exception's message. Every exception of the
  branches is thrown before the blob is written, so the store is the one the request found.
\<close>

definition tryCatch :: "store \<Rightarrow> error + response option \<times> store \<Rightarrow> response option \<times> store" where
  "tryCatch st r =
     (case r of
        Inl (TypeError msg) \<Rightarrow> (Some (jsonError 500 ''Server Error'' msg), st)
      | Inr res \<Rightarrow> res)"

text \<open>
  \<^verbatim>\<open>module.exports\<close>: preflight, authentication against the configured key list, the
  route's document name, authorisation against the permission table, then the branches.
\<close>

definition handler :: "config \<Rightarrow> env \<Rightarrow> request \<Rightarrow> store \<Rightarrow> response option \<times> store" where
  "handler cfg ev req st =
     (if req_method req = ''OPTIONS'' then (Some \<lparr>status = 204, body = None\<rparr>, st)
      else
        (case truthyStr (apiKeyHeader req) of
           None \<Rightarrow> (Some (jsonError 401 ''Unauthorized'' ''Valid API key required.''), st)
         | Some apiKey \<Rightarrow>
             if apiKey \<in> set (validKeys cfg) then
               (case truthyStr (req_filename req) of
                  None \<Rightarrow> (Some (jsonError 400 ''Bad Request'' ''Filename required.''), st)
                | Some fname \<Rightarrow>
                    if hasPermission apiKey fname (operationOf (req_method req)) then
                      tryCatch st (dispatch st ev req apiKey fname)
                    else
                      (Some (jsonError 403 ''Forbidden''
                               (''Your API key cannot '' @ operationName (operationOf (req_method req))
                                @ '' '' @ fname @ ''.'')),
                       st))
             else (Some (jsonError 401 ''Unauthorized'' ''Valid API key required.''), st)))"

text \<open>The status of the response, when there is one.\<close>

definition statusOf :: "response option \<times> store \<Rightarrow> nat option" where
  "statusOf r = map_option status (fst r)"

section \<open>Offline merge reconciler\<close>

text \<open>
  \<^verbatim>\<open>mergeMonthlyData\<close> and \<^verbatim>\<open>mergeHourlyData\<close> of the Azure updater. A fetched monthly
  record is what either fetcher writes: \<^verbatim>\<open>year\<close> and \<^verbatim>\<open>month\<close> a string or a number,
  the price under \<^verbatim>\<open>avg_da_lmp\<close> or \<^verbatim>\<open>lmp\<close>, the other fields optional. A stored record
  has the normalised shape the updater writes; its price may be missing (a record of the
  older format). Prices are rationals: the doubles of the inputs used below are exact,
  and the comparisons with zero are exact for every double.
\<close>

datatype strnum = Str string | Num nat

fun toString :: "strnum \<Rightarrow> string" where
  "toString (Str s) = s"
| "toString (Num n) = string_of_nat n"

text \<open>\<^verbatim>\<open>s.padStart(2, '0')\<close>.\<close>

definition padStart2 :: "string \<Rightarrow> string" where
  "padStart2 s = replicate (2 - length s) (CHR ''0'') @ s"

record fetched =
  f_iso :: string
  f_zone :: string
  f_zone_id :: "string option"
  f_year :: strnum
  f_month :: strnum
  f_avg_da_lmp :: "rat option"
  f_lmp :: "rat option"
  f_min_price :: "rat option"
  f_max_price :: "rat option"
  f_record_count :: "nat option"

record monthly =
  m_iso :: string
  m_zone :: string
  m_zone_id :: string
  m_year :: string
  m_month :: string
  m_avg_da_lmp :: "rat option"
  m_min_price :: rat
  m_max_price :: rat
  m_record_count :: nat

text \<open>\<^verbatim>\<open>monthlyKey\<close>: the template literal over the four fields, each as a string.\<close>

definition monthlyKey :: "string \<Rightarrow> string \<Rightarrow> string \<Rightarrow> string \<Rightarrow> string" where
  "monthlyKey i z y m = i @ ''_'' @ z @ ''_'' @ y @ ''_'' @ m"

definition fetchedKey :: "fetched \<Rightarrow> string" where
  "fetchedKey r = monthlyKey (f_iso r) (f_zone r) (toString (f_year r)) (toString (f_month r))"

definition storedKey :: "monthly \<Rightarrow> string" where
  "storedKey r = monthlyKey (m_iso r) (m_zone r) (m_year r) (m_month r)"

text \<open>\<^verbatim>\<open>a || b\<close> on numbers that may be missing, and \<^verbatim>\<open>parseFloat(a || 0)\<close>.\<close>

definition orNum :: "rat option \<Rightarrow> rat option \<Rightarrow> rat option" where
  "orNum a b = (case a of None \<Rightarrow> b | Some x \<Rightarrow> if x = 0 then b else a)"

definition orZero :: "rat option \<Rightarrow> rat" where
  "orZero a = (case a of None \<Rightarrow> 0 | Some x \<Rightarrow> x)"

text \<open>The \<^verbatim>\<open>normalized\<close> object of the loop body.\<close>

definition normalize :: "fetched \<Rightarrow> monthly" where
  "normalize r =
     \<lparr>m_iso = f_iso r,
      m_zone = f_zone r,
      m_zone_id = (case truthyStr (f_zone_id r) of None \<Rightarrow> f_zone r | Some z \<Rightarrow> z),
      m_year = toString (f_year r),
      m_month = padStart2 (toString (f_month r)),
      m_avg_da_lmp = Some (orZero (orNum (f_avg_da_lmp r) (f_lmp r))),
      m_min_price = orZero (orNum (f_min_price r) (f_avg_da_lmp r)),
      m_max_price = orZero (orNum (f_max_price r) (f_avg_da_lmp r)),
      m_record_count = (case f_record_count r of None \<Rightarrow> 0 | Some n \<Rightarrow> n)\<rparr>"

text \<open>\<^verbatim>\<open>findIndex\<close>; \<open>None\<close> is \<^verbatim>\<open>-1\<close>.\<close>

fun findIndex :: "('a \<Rightarrow> bool) \<Rightarrow> 'a list \<Rightarrow> nat option" where
  "findIndex P [] = None"
| "findIndex P (x # xs) =
     (if P x then Some 0 else map_option Suc (findIndex P xs))"

record mstats =
  added :: nat
  updated :: nat
  unchanged :: nat

type_synonym monthly_db = "(string \<times> monthly list) list"

text \<open>\<^verbatim>\<open>existing.avg_da_lmp > 0\<close>, false of a missing price.\<close>

definition positivePrice :: "rat option \<Rightarrow> bool" where
  "positivePrice a = (case a of None \<Rightarrow> False | Some x \<Rightarrow> x > 0)"

text \<open>
  One turn of the loop over \<^verbatim>\<open>newRecords\<close>. The key is computed from the fetched record
  as it came, the stored keys from the stored (normalised) records. The property read
  \<^verbatim>\<open>database.data[iso]\<close> is the own-key lookup \<open>map_of\<close>: that is the source's read for
  every ISO name that \<^verbatim>\<open>Object.prototype\<close> does not define (\<open>objectPrototypeKeys\<close>), and
  the ISO names used below are of that kind.
\<close>

definition mergeRecord :: "monthly_db \<times> mstats \<Rightarrow> fetched \<Rightarrow> monthly_db \<times> mstats" where
  "mergeRecord acc record =
     (let stats = snd acc;
          iso = f_iso record;
          dbdata = (case map_of (fst acc) iso of
                      None \<Rightarrow> AList.update iso [] (fst acc)
                    | Some b \<Rightarrow> fst acc);
          bucket = (case map_of dbdata iso of None \<Rightarrow> [] | Some b \<Rightarrow> b);
          key = fetchedKey record;
          idx = findIndex (\<lambda>r. storedKey r = key) bucket;
          normalized = normalize record
      in
      if m_avg_da_lmp normalized = Some 0
         \<and> (case idx of None \<Rightarrow> False | Some i \<Rightarrow> positivePrice (m_avg_da_lmp (bucket ! i)))
      then (dbdata, stats\<lparr>unchanged := unchanged stats + 1\<rparr>)
      else
        (case idx of
           None \<Rightarrow>
             (AList.update iso (bucket @ [normalized]) dbdata, stats\<lparr>added := added stats + 1\<rparr>)
         | Some i \<Rightarrow>
             if \<bar>orZero (m_avg_da_lmp (bucket ! i)) - orZero (m_avg_da_lmp normalized)\<bar>
                  > 1 / 10000
             then (AList.update iso (bucket[i := normalized]) dbdata,
                   stats\<lparr>updated := updated stats + 1\<rparr>)
             else (dbdata, stats\<lparr>unchanged := unchanged stats + 1\<rparr>)))"

text \<open>
  The sort of each ISO's records by zone, year and month. \<^verbatim>\<open>Array.prototype.sort\<close> is
  stable; \<^verbatim>\<open>localeCompare\<close> is taken to be a linear order on strings, here the
  lexicographic one.
\<close>

definition sortRecords :: "monthly list \<Rightarrow> monthly list" where
  "sortRecords rs = sort_key (\<lambda>r. (m_zone r, m_year r, m_month r)) rs"

record hourly_rec =
  h_dt :: string
  h_p :: rat
  h_z :: string

type_synonym hourly_db = "(string \<times> (string \<times> hourly_rec list) list) list"

record database =
  db_data :: monthly_db
  db_hourly :: "hourly_db option"

definition mergeMonthlyData :: "database \<Rightarrow> fetched list \<Rightarrow> database \<times> mstats" where
  "mergeMonthlyData db newRecords =
     (let r = foldl mergeRecord (db_data db, \<lparr>added = 0, updated = 0, unchanged = 0\<rparr>) newRecords
      in (db\<lparr>db_data := map (\<lambda>e. (fst e, sortRecords (snd e))) (fst r)\<rparr>, snd r))"

record hstats =
  addedMonths :: nat
  updatedMonths :: nat
  totalRecords :: nat
  skippedMonths :: nat

record hourly_payload =
  hp_data :: "hourly_db option"

text \<open>
  One turn of the inner loop of \<^verbatim>\<open>mergeHourlyData\<close>, over the months of one ISO; the
  first component is \<^verbatim>\<open>database.hourly[iso]\<close>. The read
  \<^verbatim>\<open>database.hourly[iso][yearMonth]\<close> and the assignment to it are the own-key lookup
  and update of the association list. That is what the source does for every year-month
  that \<^verbatim>\<open>Object.prototype\<close> does not define; for one it defines (\<^verbatim>\<open>__proto__\<close>,
  \<^verbatim>\<open>constructor\<close>, ...) the source reads the inherited value and may write the
  prototype, which this definition does not describe: the properties of the hourly merge
  are stated for payloads without such keys (\<open>plainKeys\<close> below).
\<close>

definition mergeBlock ::
    "(string \<times> hourly_rec list) list \<times> hstats \<Rightarrow> string \<times> hourly_rec list
      \<Rightarrow> (string \<times> hourly_rec list) list \<times> hstats" where
  "mergeBlock acc blk =
     (let months = fst acc; stats = snd acc; yearMonth = fst blk; records = snd blk;
          hasNonZero = list_ex (\<lambda>r. h_p r \<noteq> 0) records;
          isNew = (map_of months yearMonth = None)
      in
      if records = [] then acc
      else if hasNonZero then
        (AList.update yearMonth records months,
         (if isNew
          then stats\<lparr>addedMonths := addedMonths stats + 1\<rparr>
          else stats\<lparr>updatedMonths := updatedMonths stats + 1\<rparr>)
           \<lparr>totalRecords := totalRecords stats + length records\<rparr>)
      else (months, stats\<lparr>skippedMonths := skippedMonths stats + 1\<rparr>))"

text \<open>
  One turn of the outer loop, over the ISOs of the payload. \<^verbatim>\<open>database.hourly[iso]\<close> is
  again the own-key lookup, the source's read for every ISO name that
  \<^verbatim>\<open>Object.prototype\<close> does not define.
\<close>

definition mergeIso ::
    "hourly_db \<times> hstats \<Rightarrow> string \<times> (string \<times> hourly_rec list) list \<Rightarrow> hourly_db \<times> hstats" where
  "mergeIso acc entry =
     (let iso = fst entry;
          h = (case map_of (fst acc) iso of
                 None \<Rightarrow> AList.update iso [] (fst acc)
               | Some m \<Rightarrow> fst acc);
          months = (case map_of h iso of None \<Rightarrow> [] | Some m \<Rightarrow> m);
          r = foldl mergeBlock (months, snd acc) (snd entry)
      in (AList.update iso (fst r) h, snd r))"

definition noHourlyStats :: hstats where
  "noHourlyStats = \<lparr>addedMonths = 0, updatedMonths = 0, totalRecords = 0, skippedMonths = 0\<rparr>"

definition mergeHourlyData :: "database \<Rightarrow> hourly_payload option \<Rightarrow> database \<times> hstats" where
  "mergeHourlyData db newHourlyData =
     (case newHourlyData of
        None \<Rightarrow> (db, noHourlyStats)
      | Some payload \<Rightarrow>
          (case hp_data payload of
             None \<Rightarrow> (db, noHourlyStats)
           | Some incoming \<Rightarrow>
               (let h0 = (case db_hourly db of None \<Rightarrow> [] | Some h \<Rightarrow> h);
                    r = foldl mergeIso (h0, noHourlyStats) incoming
                in (db\<lparr>db_hourly := Some (fst r)\<rparr>, snd r))))"

section \<open>Vocabulary of the properties\<close>

text \<open>
  A request that passes the four gates of \<^verbatim>\<open>module.exports\<close>: it is no preflight, it
  presents the key \<open>apiKey\<close>, the configuration lists that key, the route names the
  document \<open>fname\<close>, and the permission table allows the operation of the method.
\<close>

definition authorizedAs :: "config \<Rightarrow> request \<Rightarrow> string \<Rightarrow> string \<Rightarrow> bool" where
  "authorizedAs cfg req apiKey fname =
     (req_method req \<noteq> ''OPTIONS''
      \<and> truthyStr (apiKeyHeader req) = Some apiKey
      \<and> apiKey \<in> set (validKeys cfg)
      \<and> truthyStr (req_filename req) = Some fname
      \<and> hasPermission apiKey fname (operationOf (req_method req)))"

text \<open>
  A malformed key, in the specification's words: it has no \<^verbatim>\<open>-\<close>, or its first segment is
  not \<^verbatim>\<open>ses\<close>.
\<close>

definition malformed :: "string \<Rightarrow> bool" where
  "malformed apiKey = (CHR ''-'' \<notin> set apiKey \<or> hd (split_dash apiKey) \<noteq> ''ses'')"

text \<open>
  The hourly block stored under an ISO and a year-month, the blocks of a payload with
  their keys, and the two kinds of block the merge tells apart.
\<close>

definition blockOf :: "hourly_db option \<Rightarrow> string \<Rightarrow> string \<Rightarrow> hourly_rec list option" where
  "blockOf h isoKey ym =
     (case h of
        None \<Rightarrow> None
      | Some isos \<Rightarrow> (case map_of isos isoKey of None \<Rightarrow> None | Some months \<Rightarrow> map_of months ym))"

definition blocks :: "hourly_db \<Rightarrow> (string \<times> string \<times> hourly_rec list) list" where
  "blocks incoming = concat (map (\<lambda>e. map (\<lambda>b. (fst e, fst b, snd b)) (snd e)) incoming)"

definition hasNonZero :: "hourly_rec list \<Rightarrow> bool" where
  "hasNonZero records = list_ex (\<lambda>r. h_p r \<noteq> 0) records"

definition allZero :: "hourly_rec list \<Rightarrow> bool" where
  "allZero records = list_all (\<lambda>r. h_p r = 0) records"

text \<open>
  A payload is a JavaScript object of objects: no ISO occurs twice, and no year-month
  occurs twice under one ISO.
\<close>

definition distinctKeys :: "hourly_db \<Rightarrow> bool" where
  "distinctKeys incoming =
     (distinct (map fst incoming) \<and> list_all (\<lambda>e. distinct (map fst (snd e))) incoming)"

text \<open>
  No ISO and no year-month of the payload is a name that \<^verbatim>\<open>Object.prototype\<close> defines, so
  that every property read of the merge under such a key is a read of an own property.
\<close>

definition plainKeys :: "hourly_db \<Rightarrow> bool" where
  "plainKeys incoming =
     list_all (\<lambda>e. fst e \<notin> set objectPrototypeKeys
                 \<and> list_all (\<lambda>b. fst b \<notin> set objectPrototypeKeys) (snd e)) incoming"

text \<open>
  Sample inputs for the closed theorems below: the key of \<^verbatim>\<open>scripts/api-key-setup.js\<close>
  as the only configured key, a clock reading and a generated identifier, and a request
  that presents the key.
\<close>

definition adminKey :: string where
  "adminKey = ''ses-admin-abc123def456''"

definition sampleConfig :: config where
  "sampleConfig = \<lparr>validKeys = [adminKey]\<rparr>"

definition sampleEnv :: env where
  "sampleEnv = \<lparr>nowIso = ''2026-02-05T12:00:00.000Z'', freshId = ''1770292800000-k3j9x2m1q''\<rparr>"

definition sampleRequest :: "string \<Rightarrow> string \<Rightarrow> string option \<Rightarrow> json option \<Rightarrow> request" where
  "sampleRequest m fname rid b =
     \<lparr>req_method = m, req_headers = [(''x-api-key'', adminKey)],
      req_filename = Some fname, req_id = rid, req_body = b\<rparr>"

section \<open>Permission check\<close>

lemma role_empty_not_listed: "map_of FILE_PERMISSIONS [] = None"
  by (simp add: FILE_PERMISSIONS_def)

lemma allowSet_absent: "\<not> roleInTable R \<Longrightarrow> allowSet R operation = {}"
proof -
  assume "\<not> roleInTable R"
  then have "map_of FILE_PERMISSIONS R = None"
    by (simp add: roleInTable_def map_of_eq_None_iff)
  then show ?thesis by (simp add: allowSet_def)
qed

lemma hasPermission_role:
  assumes "getRoleFromKey apiKey = Some R"
  shows "hasPermission apiKey D operation \<longleftrightarrow> D \<in> allowSet R operation"
  using assms role_empty_not_listed
  by (auto simp: hasPermission_def allowSet_def lookupPermissions_def split: option.splits)

lemma split_dash_no_dash: "CHR ''-'' \<notin> set k \<Longrightarrow> split_dash k = [k]"
  by (induction k) auto

text \<open>Every role without a \<^verbatim>\<open>-\<close> is the role of a key.\<close>

lemma getRoleFromKey_ses: "CHR ''-'' \<notin> set R \<Longrightarrow> getRoleFromKey (''ses-'' @ R) = Some R"
  by (simp add: getRoleFromKey_def split_dash_no_dash)

lemma hasPermission_no_role: "getRoleFromKey apiKey = None \<Longrightarrow> \<not> hasPermission apiKey D operation"
  by (simp add: hasPermission_def)

text \<open>
  C4. The permission check is membership in the configured allow-set of the role the key
  resolves to: it holds exactly when the key resolves to a role \<open>R\<close> and the document is
  in the allow-set of \<open>R\<close> and the operation. It is false when the key resolves to no
  role, when \<open>R\<close> is not a role of the table (its allow-set is empty, also for a name
  that \<^verbatim>\<open>Object.prototype\<close> defines), and when the document is not in the entry. Every
  role of the table has an entry for each of the three operations. Every role without a
  \<^verbatim>\<open>-\<close> is the role of the key \<^verbatim>\<open>ses-\<close>role, so the check at that key is the
  membership test for the role.
\<close>

theorem hasPermission_allowSet:
  "(hasPermission apiKey D operation \<longleftrightarrow>
      (\<exists>R. getRoleFromKey apiKey = Some R \<and> D \<in> allowSet R operation))
   \<and> (getRoleFromKey apiKey = None \<longrightarrow> \<not> hasPermission apiKey D operation)
   \<and> (\<forall>R. getRoleFromKey apiKey = Some R \<longrightarrow>
          (hasPermission apiKey D operation \<longleftrightarrow> D \<in> allowSet R operation)
        \<and> (\<not> roleInTable R \<longrightarrow> \<not> hasPermission apiKey D operation)
        \<and> (D \<notin> allowSet R operation \<longrightarrow> \<not> hasPermission apiKey D operation))
   \<and> (CHR ''-'' \<notin> set role \<longrightarrow>
        (hasPermission (''ses-'' @ role) D operation \<longleftrightarrow> D \<in> allowSet role operation))"
proof -
  have main: "hasPermission apiKey D operation \<longleftrightarrow>
      (\<exists>R. getRoleFromKey apiKey = Some R \<and> D \<in> allowSet R operation)"
  proof (cases "getRoleFromKey apiKey")
    case None
    then show ?thesis using hasPermission_no_role [OF None] by simp
  next
    case (Some R)
    then show ?thesis using hasPermission_role [OF Some] by simp
  qed
  have none: "getRoleFromKey apiKey = None \<longrightarrow> \<not> hasPermission apiKey D operation"
    using hasPermission_no_role by blast
  have some: "\<forall>R. getRoleFromKey apiKey = Some R \<longrightarrow>
          (hasPermission apiKey D operation \<longleftrightarrow> D \<in> allowSet R operation)
        \<and> (\<not> roleInTable R \<longrightarrow> \<not> hasPermission apiKey D operation)
        \<and> (D \<notin> allowSet R operation \<longrightarrow> \<not> hasPermission apiKey D operation)"
  proof (intro allI impI)
    fix R
    assume R: "getRoleFromKey apiKey = Some R"
    show "(hasPermission apiKey D operation \<longleftrightarrow> D \<in> allowSet R operation)
        \<and> (\<not> roleInTable R \<longrightarrow> \<not> hasPermission apiKey D operation)
        \<and> (D \<notin> allowSet R operation \<longrightarrow> \<not> hasPermission apiKey D operation)"
      using hasPermission_role [OF R, of D operation] allowSet_absent [of R operation]
      by simp
  qed
  have plain: "CHR ''-'' \<notin> set role \<longrightarrow>
        (hasPermission (''ses-'' @ role) D operation \<longleftrightarrow> D \<in> allowSet role operation)"
    using hasPermission_role [OF getRoleFromKey_ses] by blast
  show ?thesis
    by (intro conjI main none some plain)
qed

theorem hasPermission_allowSet_witness:
  "hasPermission ''ses-ae-xyz'' ''clients.json'' Read
   \<and> \<not> hasPermission ''ses-ae-xyz'' ''clients.json'' Delete
   \<and> \<not> hasPermission ''ses-constructor-1'' ''clients.json'' Read
   \<and> \<not> hasPermission ''badkey'' ''clients.json'' Read"
proof -
  have ae: "getRoleFromKey ''ses-ae-xyz'' = Some ''ae''"
    by (simp add: getRoleFromKey_def)
  have ctor: "getRoleFromKey ''ses-constructor-1'' = Some ''constructor''"
    by (simp add: getRoleFromKey_def)
  have bad: "getRoleFromKey ''badkey'' = None"
    by (simp add: getRoleFromKey_def)
  have r: "''clients.json'' \<in> allowSet ''ae'' Read"
    by (simp add: allowSet_def FILE_PERMISSIONS_def)
  have d: "''clients.json'' \<notin> allowSet ''ae'' Delete"
    by (simp add: allowSet_def FILE_PERMISSIONS_def)
  have nt: "\<not> roleInTable ''constructor''"
    by (simp add: roleInTable_def FILE_PERMISSIONS_def)
  have "hasPermission ''ses-ae-xyz'' ''clients.json'' Read"
    using hasPermission_allowSet [of "''ses-ae-xyz''" "''clients.json''" Read, THEN conjunct1]
    by (simp add: ae r)
  moreover have "\<not> hasPermission ''ses-ae-xyz'' ''clients.json'' Delete"
    using hasPermission_allowSet [of "''ses-ae-xyz''" "''clients.json''" Delete, THEN conjunct1]
    by (simp add: ae d)
  moreover have "\<not> hasPermission ''ses-constructor-1'' ''clients.json'' Read"
    using hasPermission_allowSet [of "''ses-constructor-1''" "''clients.json''" Read,
            THEN conjunct1]
    by (simp add: ctor allowSet_absent [OF nt])
  moreover have "\<not> hasPermission ''badkey'' ''clients.json'' Read"
    using hasPermission_allowSet [of "''badkey''" "''clients.json''" Read, THEN conjunct1]
    by (simp add: bad)
  ultimately show ?thesis
    by simp
qed

section \<open>The gates of the handler\<close>

lemma handler_authorized:
  assumes "authorizedAs cfg req apiKey fname"
  shows "handler cfg ev req st = tryCatch st (dispatch st ev req apiKey fname)"
  using assms by (simp add: authorizedAs_def handler_def)

lemma adminKey_role: "getRoleFromKey adminKey = Some ''admin''"
  by (simp add: adminKey_def getRoleFromKey_def)

lemma admin_allowSet_tickets:
  "''tickets.json'' \<in> allowSet ''admin'' Read" "''tickets.json'' \<in> allowSet ''admin'' Write"
  "''tickets.json'' \<in> allowSet ''admin'' Delete"
  by (simp_all add: allowSet_def FILE_PERMISSIONS_def)

lemma sample_authorized:
  assumes "m \<noteq> ''OPTIONS''" "''tickets.json'' \<in> allowSet ''admin'' (operationOf m)"
  shows "authorizedAs sampleConfig (sampleRequest m ''tickets.json'' rid b) adminKey ''tickets.json''"
proof -
  have "adminKey \<noteq> []" by (simp add: adminKey_def)
  then have "truthyStr (apiKeyHeader (sampleRequest m ''tickets.json'' rid b)) = Some adminKey"
    by (simp add: apiKeyHeader_def sampleRequest_def truthyStr_def)
  moreover have "hasPermission adminKey ''tickets.json'' (operationOf m)"
    using hasPermission_role [OF adminKey_role] assms(2) by simp
  ultimately show ?thesis
    using assms(1) by (simp add: authorizedAs_def sampleConfig_def sampleRequest_def truthyStr_def)
qed

section \<open>Record update\<close>

text \<open>
  What the merged object does guarantee, whatever the body: \<^verbatim>\<open>id\<close> and \<^verbatim>\<open>createdAt\<close> of
  the stored record, and the new \<^verbatim>\<open>updatedAt\<close> and \<^verbatim>\<open>updatedBy\<close>.
\<close>

lemma updatedRecord_fields:
  "\<exists>gs. updatedRecord (JObj fs) updateData ev apiKey = JObj gs
        \<and> map_of gs ''id'' = map_of fs ''id''
        \<and> map_of gs ''createdAt'' = map_of fs ''createdAt''
        \<and> map_of gs ''updatedAt'' = Some (JStr (nowIso ev))
        \<and> map_of gs ''updatedBy'' = Some (roleJson apiKey)"
  by (cases "map_of fs ''id''"; cases "map_of fs ''createdAt''")
     (simp_all add: updatedRecord_def forceProp_def update_conv' delete_conv')

text \<open>
  C1. A record-level PUT must leave \<^verbatim>\<open>id\<close>, \<^verbatim>\<open>createdAt\<close> and \<^verbatim>\<open>createdBy\<close> as they
  were. The handler writes \<^verbatim>\<open>id\<close> and \<^verbatim>\<open>createdAt\<close> back after spreading the body and
  leaves \<^verbatim>\<open>createdBy\<close> out: on a record created by \<^verbatim>\<open>admin\<close>, a body that carries
  \<^verbatim>\<open>id\<close>, \<^verbatim>\<open>createdAt\<close> and \<^verbatim>\<open>createdBy\<close> is answered 200, keeps \<^verbatim>\<open>id\<close> and
  \<^verbatim>\<open>createdAt\<close>, and stores the caller's \<^verbatim>\<open>createdBy\<close>.
\<close>

theorem put_record_overwrites_createdBy:
  "handler sampleConfig sampleEnv
     (sampleRequest ''PUT'' ''tickets.json'' (Some ''r1'')
        (Some (JObj [(''id'', JStr ''r9''), (''createdAt'', JStr ''2030-01-01T00:00:00.000Z''),
                     (''createdBy'', JStr ''mallory'')])))
     (Map.empty(''tickets.json'' \<mapsto>
        JArr [JObj [(''id'', JStr ''r1''), (''createdAt'', JStr ''2026-01-01T00:00:00.000Z''),
                    (''createdBy'', JStr ''admin'')]]))
   = (Some (jsonOk 200 (JObj
        [(''success'', JBool True), (''message'', JStr ''Record updated.''),
         (''record'',
          JObj [(''id'', JStr ''r1''), (''createdAt'', JStr ''2026-01-01T00:00:00.000Z''),
                (''createdBy'', JStr ''mallory''),
                (''updatedAt'', JStr ''2026-02-05T12:00:00.000Z''),
                (''updatedBy'', JStr ''admin'')])])),
      Map.empty(''tickets.json'' \<mapsto>
        JArr [JObj [(''id'', JStr ''r1''), (''createdAt'', JStr ''2026-01-01T00:00:00.000Z''),
                    (''createdBy'', JStr ''mallory''),
                    (''updatedAt'', JStr ''2026-02-05T12:00:00.000Z''),
                    (''updatedBy'', JStr ''admin'')]]))"
proof -
  have auth: "authorizedAs sampleConfig (sampleRequest ''PUT'' ''tickets.json'' rid b)
                adminKey ''tickets.json''" for rid b
    by (rule sample_authorized) (simp_all add: operationOf_def admin_allowSet_tickets)
  show ?thesis
    unfolding handler_authorized [OF auth]
    by (simp add: tryCatch_def dispatch_def sampleRequest_def sampleEnv_def handlePut_def
          truthyStr_def getBlob_def matchesId_def updatedRecord_def assignAll_def forceProp_def
          roleJson_def adminKey_role saveBlob_def Let_def)
qed

section \<open>Requests without a body\<close>

lemma post_without_body:
  assumes "authorizedAs cfg req apiKey fname" "req_method req = ''POST''"
      and "\<not> truthyOpt (req_body req)"
  shows "handler cfg ev req st
         = (Some (jsonError 400 ''Bad Request'' ''Request body required.''), st)"
  using assms(2,3) unfolding handler_authorized [OF assms(1)]
  by (simp add: tryCatch_def dispatch_def handlePost_def)

text \<open>
  C9. A POST or PUT without a body must be answered 400 and persist nothing. The POST
  branch checks the body; the PUT branch does not. A whole-file PUT without a body
  reaches \<^verbatim>\<open>saveBlob\<close> with \<^verbatim>\<open>undefined\<close> and is answered 500 by the \<^verbatim>\<open>catch\<close> clause,
  and a record-level PUT without a body is answered 200 and writes the record back with
  new \<^verbatim>\<open>updatedAt\<close> and \<^verbatim>\<open>updatedBy\<close>.
\<close>

theorem put_without_body_not_400:
  "handler sampleConfig sampleEnv (sampleRequest ''PUT'' ''tickets.json'' None None)
     (Map.empty(''tickets.json'' \<mapsto> JArr [JObj [(''id'', JStr ''r1'')]]))
   = (Some (jsonError 500 ''Server Error''
              ''The string argument must be of type string. Received undefined''),
      Map.empty(''tickets.json'' \<mapsto> JArr [JObj [(''id'', JStr ''r1'')]]))
   \<and> handler sampleConfig sampleEnv (sampleRequest ''PUT'' ''tickets.json'' (Some ''r1'') None)
     (Map.empty(''tickets.json'' \<mapsto> JArr [JObj [(''id'', JStr ''r1'')]]))
   = (Some (jsonOk 200 (JObj
        [(''success'', JBool True), (''message'', JStr ''Record updated.''),
         (''record'',
          JObj [(''id'', JStr ''r1''), (''updatedAt'', JStr ''2026-02-05T12:00:00.000Z''),
                (''updatedBy'', JStr ''admin'')])])),
      Map.empty(''tickets.json'' \<mapsto>
        JArr [JObj [(''id'', JStr ''r1''), (''updatedAt'', JStr ''2026-02-05T12:00:00.000Z''),
                    (''updatedBy'', JStr ''admin'')]]))"
proof -
  have auth: "authorizedAs sampleConfig (sampleRequest ''PUT'' ''tickets.json'' rid b)
                adminKey ''tickets.json''" for rid b
    by (rule sample_authorized) (simp_all add: operationOf_def admin_allowSet_tickets)
  show ?thesis
    unfolding handler_authorized [OF auth]
    by (simp add: tryCatch_def dispatch_def sampleRequest_def sampleEnv_def handlePut_def
          truthyStr_def getBlob_def matchesId_def updatedRecord_def assignAll_def forceProp_def
          roleJson_def adminKey_role saveBlob_def Let_def)
qed

section \<open>Authentication of malformed keys\<close>

lemma malformed_no_role: "malformed k \<Longrightarrow> getRoleFromKey k = None"
  by (auto simp: malformed_def getRoleFromKey_def split_dash_no_dash)

lemma handler_rejects:
  assumes "req_method req \<noteq> ''OPTIONS''"
  shows "truthyStr (apiKeyHeader req) = None \<Longrightarrow>
           handler cfg ev req st
           = (Some (jsonError 401 ''Unauthorized'' ''Valid API key required.''), st)"
    and "truthyStr (apiKeyHeader req) = Some k \<Longrightarrow> k \<notin> set (validKeys cfg) \<Longrightarrow>
           handler cfg ev req st
           = (Some (jsonError 401 ''Unauthorized'' ''Valid API key required.''), st)"
    and "truthyStr (apiKeyHeader req) = Some k \<Longrightarrow> k \<in> set (validKeys cfg) \<Longrightarrow>
         truthyStr (req_filename req) = None \<Longrightarrow>
           handler cfg ev req st
           = (Some (jsonError 400 ''Bad Request'' ''Filename required.''), st)"
    and "truthyStr (apiKeyHeader req) = Some k \<Longrightarrow> k \<in> set (validKeys cfg) \<Longrightarrow>
         truthyStr (req_filename req) = Some f \<Longrightarrow>
         \<not> hasPermission k f (operationOf (req_method req)) \<Longrightarrow>
           statusOf (handler cfg ev req st) = Some 403 \<and> snd (handler cfg ev req st) = st"
  using assms by (simp_all add: handler_def statusOf_def jsonError_def)

text \<open>
  C8, as the code has it. Authentication is membership in the configured key list, not
  the shape of the key. A request that is no preflight and presents a malformed key is
  answered 401 whenever the configuration does not list the key (or the key is empty),
  whatever the document. A malformed, non-empty key that the configuration lists passes
  authentication and is refused later, since it resolves to no role: the answer is 400
  when the route names no document and 403 otherwise. In every case the store is left
  as it was.
\<close>

theorem malformed_key_refused:
  assumes "req_method req \<noteq> ''OPTIONS''"
      and "apiKeyHeader req = Some apiKey"
      and "malformed apiKey"
  shows "(apiKey \<notin> set (validKeys cfg) \<longrightarrow> statusOf (handler cfg ev req st) = Some 401)
       \<and> statusOf (handler cfg ev req st)
           = Some (if apiKey = [] \<or> apiKey \<notin> set (validKeys cfg) then 401
                   else if truthyStr (req_filename req) = None then 400
                   else 403)
       \<and> snd (handler cfg ev req st) = st"
proof (cases "truthyStr (apiKeyHeader req)")
  case None
  with assms(2) have "apiKey = []"
    by (simp add: truthyStr_def split: if_splits)
  then show ?thesis
    unfolding handler_rejects(1) [OF assms(1) None]
    by (simp add: statusOf_def jsonError_def)
next
  case (Some k)
  with assms(2) have k: "k = apiKey" and ne: "apiKey \<noteq> []"
    by (simp_all add: truthyStr_def split: if_splits)
  show ?thesis
  proof (cases "apiKey \<in> set (validKeys cfg)")
    case False
    show ?thesis
      unfolding handler_rejects(2) [OF assms(1) Some [unfolded k] False]
      using False by (simp add: statusOf_def jsonError_def)
  next
    case True
    show ?thesis
    proof (cases "truthyStr (req_filename req)")
      case None
      show ?thesis
        unfolding handler_rejects(3) [OF assms(1) Some [unfolded k] True None]
        using True ne None by (simp add: statusOf_def jsonError_def)
    next
      case (Some f)
      have "\<not> hasPermission apiKey f (operationOf (req_method req))"
        using malformed_no_role [OF assms(3)] by (rule hasPermission_no_role)
      from handler_rejects(4) [OF assms(1) \<open>truthyStr (apiKeyHeader req) = Some k\<close> [unfolded k]
             True Some this]
      show ?thesis using True ne Some by simp
    qed
  qed
qed

theorem malformed_key_refused_witness:
  "statusOf (handler sampleConfig sampleEnv
      \<lparr>req_method = ''GET'', req_headers = [(''x-api-key'', ''badkey'')],
       req_filename = Some ''clients.json'', req_id = None, req_body = None\<rparr> Map.empty)
   = Some 401
   \<and> statusOf (handler \<lparr>validKeys = [''badkey'']\<rparr> sampleEnv
      \<lparr>req_method = ''GET'', req_headers = [(''x-api-key'', ''badkey'')],
       req_filename = None, req_id = None, req_body = None\<rparr> Map.empty)
   = Some 400
   \<and> statusOf (handler \<lparr>validKeys = [''badkey'']\<rparr> sampleEnv
      \<lparr>req_method = ''DELETE'', req_headers = [(''x-api-key'', ''badkey'')],
       req_filename = Some ''tickets.json'', req_id = Some ''r1'', req_body = None\<rparr> Map.empty)
   = Some 403"
proof -
  have m: "malformed ''badkey''"
    by (simp add: malformed_def)
  have v: "''badkey'' \<notin> set (validKeys sampleConfig)"
    by (simp add: sampleConfig_def adminKey_def)
  have "statusOf (handler sampleConfig sampleEnv
      \<lparr>req_method = ''GET'', req_headers = [(''x-api-key'', ''badkey'')],
       req_filename = Some ''clients.json'', req_id = None, req_body = None\<rparr> Map.empty)
   = Some 401"
    using malformed_key_refused [of "\<lparr>req_method = ''GET'',
        req_headers = [(''x-api-key'', ''badkey'')], req_filename = Some ''clients.json'',
        req_id = None, req_body = None\<rparr>" "''badkey''" sampleConfig sampleEnv Map.empty] m v
    by (simp add: apiKeyHeader_def truthyStr_def)
  moreover have "statusOf (handler \<lparr>validKeys = [''badkey'']\<rparr> sampleEnv
      \<lparr>req_method = ''GET'', req_headers = [(''x-api-key'', ''badkey'')],
       req_filename = None, req_id = None, req_body = None\<rparr> Map.empty)
   = Some 400"
    using malformed_key_refused [of "\<lparr>req_method = ''GET'',
        req_headers = [(''x-api-key'', ''badkey'')], req_filename = None,
        req_id = None, req_body = None\<rparr>" "''badkey''" "\<lparr>validKeys = [''badkey'']\<rparr>"
        sampleEnv Map.empty] m
    by (simp add: apiKeyHeader_def truthyStr_def)
  moreover have "statusOf (handler \<lparr>validKeys = [''badkey'']\<rparr> sampleEnv
      \<lparr>req_method = ''DELETE'', req_headers = [(''x-api-key'', ''badkey'')],
       req_filename = Some ''tickets.json'', req_id = Some ''r1'', req_body = None\<rparr> Map.empty)
   = Some 403"
    using malformed_key_refused [of "\<lparr>req_method = ''DELETE'',
        req_headers = [(''x-api-key'', ''badkey'')], req_filename = Some ''tickets.json'',
        req_id = Some ''r1'', req_body = None\<rparr>" "''badkey''" "\<lparr>validKeys = [''badkey'']\<rparr>"
        sampleEnv Map.empty] m
    by (simp add: apiKeyHeader_def truthyStr_def)
  ultimately show ?thesis
    by simp
qed

text \<open>
  C8 as stated fails: with \<^verbatim>\<open>badkey\<close> in \<^verbatim>\<open>VALID_API_KEYS\<close>, a GET of
  \<^verbatim>\<open>clients.json\<close> with that key is answered 403, not 401.
\<close>

theorem malformed_key_listed_is_403:
  "malformed ''badkey''
   \<and> statusOf (handler \<lparr>validKeys = [''badkey'']\<rparr> sampleEnv
        \<lparr>req_method = ''GET'', req_headers = [(''x-api-key'', ''badkey'')],
         req_filename = Some ''clients.json'', req_id = None, req_body = None\<rparr> Map.empty)
     = Some 403"
proof -
  have "getRoleFromKey ''badkey'' = None"
    by (simp add: getRoleFromKey_def)
  then have "\<not> hasPermission ''badkey'' ''clients.json'' Read"
    by (rule hasPermission_no_role)
  then show ?thesis
    by (simp add: malformed_def handler_def apiKeyHeader_def truthyStr_def operationOf_def
          statusOf_def jsonError_def)
qed

section \<open>Reading a record of a document that is no array\<close>

text \<open>
  C10, as the code has it. An authorised GET that carries a record id, on a stored
  document that is neither an array nor JSON \<^verbatim>\<open>null\<close>, is answered 200 with the whole
  document; the record id is ignored. A stored document that holds JSON \<^verbatim>\<open>null\<close> is
  answered 404 with the message of a missing document, as a missing document is. In
  each case the store is left as it was.
\<close>

theorem get_with_id_on_non_array:
  assumes "authorizedAs cfg req apiKey fname"
      and "req_method req = ''GET''"
  shows "(\<forall>d. st fname = Some d \<and> \<not> isArray d \<and> d \<noteq> JNull
            \<longrightarrow> handler cfg ev req st = (Some (jsonOk 200 d), st))
       \<and> (st fname = Some JNull \<or> st fname = None
            \<longrightarrow> handler cfg ev req st
                = (Some (jsonError 404 ''Not Found'' (fname @ '' not found.'')), st))"
proof (intro conjI allI impI)
  fix d
  assume a: "st fname = Some d \<and> \<not> isArray d \<and> d \<noteq> JNull"
  then have "handleGet st fname (req_id req) = Inr (jsonOk 200 d, st)"
    by (cases d) (simp_all add: handleGet_def getBlob_def Let_def split: option.splits)
  then show "handler cfg ev req st = (Some (jsonOk 200 d), st)"
    unfolding handler_authorized [OF assms(1)]
    using assms(2) by (simp add: dispatch_def tryCatch_def)
next
  assume "st fname = Some JNull \<or> st fname = None"
  then have "getBlob st fname = JNull"
    by (auto simp: getBlob_def)
  then have "handleGet st fname (req_id req)
             = Inr (jsonError 404 ''Not Found'' (fname @ '' not found.''), st)"
    by (simp add: handleGet_def)
  then show "handler cfg ev req st
             = (Some (jsonError 404 ''Not Found'' (fname @ '' not found.'')), st)"
    unfolding handler_authorized [OF assms(1)]
    using assms(2) by (simp add: dispatch_def tryCatch_def)
qed

theorem get_with_id_on_non_array_witness:
  "handler sampleConfig sampleEnv (sampleRequest ''GET'' ''tickets.json'' (Some ''r1'') None)
     (Map.empty(''tickets.json'' \<mapsto> JObj [(''open'', JNum 3)]))
   = (Some (jsonOk 200 (JObj [(''open'', JNum 3)])),
      Map.empty(''tickets.json'' \<mapsto> JObj [(''open'', JNum 3)]))
   \<and> handler sampleConfig sampleEnv (sampleRequest ''GET'' ''tickets.json'' (Some ''r1'') None)
       (Map.empty(''clients.json'' \<mapsto> JArr [], ''tickets.json'' \<mapsto> JNull))
     = (Some (jsonError 404 ''Not Found'' ''tickets.json not found.''),
        Map.empty(''clients.json'' \<mapsto> JArr [], ''tickets.json'' \<mapsto> JNull))"
proof -
  have auth: "authorizedAs sampleConfig (sampleRequest ''GET'' ''tickets.json'' (Some ''r1'') None)
                adminKey ''tickets.json''"
    by (rule sample_authorized) (simp_all add: operationOf_def admin_allowSet_tickets)
  have m: "req_method (sampleRequest ''GET'' ''tickets.json'' (Some ''r1'') None) = ''GET''"
    by (simp add: sampleRequest_def)
  have "handler sampleConfig sampleEnv (sampleRequest ''GET'' ''tickets.json'' (Some ''r1'') None)
     (Map.empty(''tickets.json'' \<mapsto> JObj [(''open'', JNum 3)]))
   = (Some (jsonOk 200 (JObj [(''open'', JNum 3)])),
      Map.empty(''tickets.json'' \<mapsto> JObj [(''open'', JNum 3)]))"
    using get_with_id_on_non_array [OF auth m, THEN conjunct1, rule_format,
            of "Map.empty(''tickets.json'' \<mapsto> JObj [(''open'', JNum 3)])"
               "JObj [(''open'', JNum 3)]" sampleEnv]
    by simp
  moreover have "handler sampleConfig sampleEnv
       (sampleRequest ''GET'' ''tickets.json'' (Some ''r1'') None)
       (Map.empty(''clients.json'' \<mapsto> JArr [], ''tickets.json'' \<mapsto> JNull))
     = (Some (jsonError 404 ''Not Found'' ''tickets.json not found.''),
        Map.empty(''clients.json'' \<mapsto> JArr [], ''tickets.json'' \<mapsto> JNull))"
    using get_with_id_on_non_array [OF auth m, THEN conjunct2, rule_format,
            of "Map.empty(''clients.json'' \<mapsto> JArr [], ''tickets.json'' \<mapsto> JNull)" sampleEnv]
    by simp
  ultimately show ?thesis
    by simp
qed

text \<open>
  C10 as stated fails on a document that exists and holds JSON \<^verbatim>\<open>null\<close>: it is no array,
  and the answer is 404, since \<^verbatim>\<open>getBlob\<close> returns \<^verbatim>\<open>null\<close> for it as for a missing blob.
\<close>

theorem get_with_id_on_null_document_is_404:
  "(Map.empty(''tickets.json'' \<mapsto> JNull)) ''tickets.json'' = Some JNull
   \<and> \<not> isArray JNull
   \<and> handler sampleConfig sampleEnv (sampleRequest ''GET'' ''tickets.json'' (Some ''r1'') None)
       (Map.empty(''tickets.json'' \<mapsto> JNull))
     = (Some (jsonError 404 ''Not Found'' ''tickets.json not found.''),
        Map.empty(''tickets.json'' \<mapsto> JNull))"
proof -
  have auth: "authorizedAs sampleConfig (sampleRequest ''GET'' ''tickets.json'' (Some ''r1'') None)
                adminKey ''tickets.json''"
    by (rule sample_authorized) (simp_all add: operationOf_def admin_allowSet_tickets)
  show ?thesis
    unfolding handler_authorized [OF auth]
    by (simp add: tryCatch_def dispatch_def sampleRequest_def handleGet_def getBlob_def)
qed

section \<open>Creating a record\<close>

lemma map_of_assignAll:
  "distinct (map fst es) \<Longrightarrow> map_of (assignAll obj es) = map_of obj ++ map_of es"
proof (induction es arbitrary: obj)
  case Nil
  then show ?case by (simp add: assignAll_def)
next
  case (Cons e es)
  obtain k v where e: "e = (k, v)" by (cases e)
  from Cons.prems have k: "k \<notin> dom (map_of es)" and d: "distinct (map fst es)"
    by (auto simp: e dom_map_of_conv_image_fst)
  have "map_of (assignAll obj (e # es)) = map_of (assignAll (AList.update k v obj) es)"
    by (simp add: assignAll_def e)
  also have "\<dots> = (map_of obj)(k \<mapsto> v) ++ map_of es"
    by (simp only: Cons.IH [OF d] update_conv')
  also have "\<dots> = map_of obj ++ map_of (e # es)"
    using k by (simp add: e map_add_upd_left)
  finally show ?case .
qed

text \<open>
  The fields of a created record, for a body without repeated keys: the body's fields,
  with \<^verbatim>\<open>id\<close> (the body's when it is truthy, else the generated one), \<^verbatim>\<open>createdAt\<close> and
  \<^verbatim>\<open>createdBy\<close> written over them.
\<close>

lemma createdRecord_fields:
  assumes "distinct (map fst fs)"
  shows "\<exists>gs. createdRecord fs ev apiKey = JObj gs
          \<and> map_of gs = (map_of fs)
               (''id'' \<mapsto> (case map_of fs ''id'' of
                               None \<Rightarrow> JStr (freshId ev)
                             | Some v \<Rightarrow> if truthy v then v else JStr (freshId ev)),
                ''createdAt'' \<mapsto> JStr (nowIso ev),
                ''createdBy'' \<mapsto> roleJson apiKey)"
  using map_of_assignAll [OF assms, of "[]"]
  by (simp add: createdRecord_def update_conv')

lemma authorized_role:
  assumes "authorizedAs cfg req apiKey fname"
  shows "\<exists>R. getRoleFromKey apiKey = Some R \<and> roleJson apiKey = JStr R
            \<and> fname \<in> allowSet R (operationOf (req_method req))"
proof -
  from assms have "hasPermission apiKey fname (operationOf (req_method req))"
    by (simp add: authorizedAs_def)
  then obtain R where R: "getRoleFromKey apiKey = Some R"
    using hasPermission_no_role by (cases "getRoleFromKey apiKey") auto
  with \<open>hasPermission apiKey fname (operationOf (req_method req))\<close> show ?thesis
    using hasPermission_role [OF R] by (simp add: roleJson_def)
qed

lemma post_appends:
  assumes "authorizedAs cfg req apiKey fname" "req_method req = ''POST''"
      and "req_body req = Some (JObj fs)"
      and "getBlob st fname = JNull \<and> xs = [] \<or> getBlob st fname = JArr xs"
  shows "handler cfg ev req st
         = (Some (jsonOk 201 (JObj [(''success'', JBool True),
                                     (''message'', JStr ''Record created.''),
                                     (''record'', createdRecord fs ev apiKey)])),
            st(fname \<mapsto> JArr (xs @ [createdRecord fs ev apiKey])))"
  using assms(2,3,4) unfolding handler_authorized [OF assms(1)]
  by (auto simp: tryCatch_def dispatch_def handlePost_def truthyOpt_def saveBlob_def Let_def)

lemma post_replaces:
  assumes "authorizedAs cfg req apiKey fname" "req_method req = ''POST''"
      and "req_body req = Some b"
      and "isArray b \<or> (\<exists>fs. b = JObj fs) \<and> getBlob st fname \<noteq> JNull \<and> \<not> isArray (getBlob st fname)"
  shows "handler cfg ev req st
         = (Some (jsonOk 201 (JObj [(''success'', JBool True), (''message'', JStr ''File saved.'')])),
            st(fname \<mapsto> b))"
proof -
  have "handlePost st ev apiKey fname (Some b)
        = Inr (jsonOk 201 (JObj [(''success'', JBool True), (''message'', JStr ''File saved.'')]),
               st(fname \<mapsto> b))"
    using assms(4)
    by (cases b; cases "getBlob st fname")
       (simp_all add: handlePost_def truthyOpt_def saveBlob_def Let_def)
  then show ?thesis
    using assms(2,3) unfolding handler_authorized [OF assms(1)]
    by (simp add: tryCatch_def dispatch_def)
qed

text \<open>
  C5, as the code has it. For an authorised POST: when the body is an object and the
  stored document is an array, or is missing or holds JSON \<^verbatim>\<open>null\<close> (both count as the
  empty array), the gateway appends the created record, persists the array and answers
  201 with the record; the record has the body's fields (its keys distinct, as those of
  a parsed object are) with \<^verbatim>\<open>id\<close> (the body's when truthy, else a generated one),
  \<^verbatim>\<open>createdAt\<close> (now) and \<^verbatim>\<open>createdBy\<close> (the resolved role) written over them. When
  the body is an array, or the body is an object and the
  stored document is neither an array nor \<^verbatim>\<open>null\<close>, the gateway persists the body as the
  whole document and answers 201.
\<close>

theorem post_creates_or_replaces:
  assumes "authorizedAs cfg req apiKey fname" and "req_method req = ''POST''"
  shows "(\<forall>fs xs. req_body req = Some (JObj fs) \<and> distinct (map fst fs)
            \<and> (getBlob st fname = JNull \<and> xs = [] \<or> st fname = Some (JArr xs))
          \<longrightarrow> (\<exists>gs R. getRoleFromKey apiKey = Some R
                 \<and> map_of gs = (map_of fs)
                      (''id'' \<mapsto> (case map_of fs ''id'' of
                                      None \<Rightarrow> JStr (freshId ev)
                                    | Some v \<Rightarrow> if truthy v then v else JStr (freshId ev)),
                       ''createdAt'' \<mapsto> JStr (nowIso ev),
                       ''createdBy'' \<mapsto> JStr R)
                 \<and> handler cfg ev req st
                    = (Some (jsonOk 201 (JObj [(''success'', JBool True),
                                                (''message'', JStr ''Record created.''),
                                                (''record'', JObj gs)])),
                       st(fname \<mapsto> JArr (xs @ [JObj gs])))))
       \<and> (\<forall>b d. req_body req = Some b
            \<and> (isArray b \<or> (\<exists>fs. b = JObj fs) \<and> st fname = Some d \<and> d \<noteq> JNull \<and> \<not> isArray d)
          \<longrightarrow> handler cfg ev req st
              = (Some (jsonOk 201 (JObj [(''success'', JBool True),
                                          (''message'', JStr ''File saved.'')])),
                 st(fname \<mapsto> b)))"
proof (intro conjI allI impI)
  fix fs xs
  assume a: "req_body req = Some (JObj fs) \<and> distinct (map fst fs)
             \<and> (getBlob st fname = JNull \<and> xs = [] \<or> st fname = Some (JArr xs))"
  then have stored: "getBlob st fname = JNull \<and> xs = [] \<or> getBlob st fname = JArr xs"
    by (auto simp: getBlob_def)
  from a obtain gs where gs: "createdRecord fs ev apiKey = JObj gs"
    and fields: "map_of gs = (map_of fs)
                   (''id'' \<mapsto> (case map_of fs ''id'' of
                                   None \<Rightarrow> JStr (freshId ev)
                                 | Some v \<Rightarrow> if truthy v then v else JStr (freshId ev)),
                    ''createdAt'' \<mapsto> JStr (nowIso ev),
                    ''createdBy'' \<mapsto> roleJson apiKey)"
    using createdRecord_fields [of fs ev apiKey] by blast
  from authorized_role [OF assms(1)] obtain R
    where R: "getRoleFromKey apiKey = Some R" "roleJson apiKey = JStr R" by blast
  from a have body: "req_body req = Some (JObj fs)" by simp
  show "\<exists>gs R. getRoleFromKey apiKey = Some R
          \<and> map_of gs = (map_of fs)
               (''id'' \<mapsto> (case map_of fs ''id'' of
                               None \<Rightarrow> JStr (freshId ev)
                             | Some v \<Rightarrow> if truthy v then v else JStr (freshId ev)),
                ''createdAt'' \<mapsto> JStr (nowIso ev),
                ''createdBy'' \<mapsto> JStr R)
          \<and> handler cfg ev req st
             = (Some (jsonOk 201 (JObj [(''success'', JBool True),
                                         (''message'', JStr ''Record created.''),
                                         (''record'', JObj gs)])),
                st(fname \<mapsto> JArr (xs @ [JObj gs])))"
    using post_appends [OF assms body stored, of ev] R fields unfolding gs by auto
next
  fix b d
  assume a: "req_body req = Some b
             \<and> (isArray b \<or> (\<exists>fs. b = JObj fs) \<and> st fname = Some d \<and> d \<noteq> JNull \<and> \<not> isArray d)"
  then have "isArray b \<or> (\<exists>fs. b = JObj fs) \<and> getBlob st fname \<noteq> JNull
               \<and> \<not> isArray (getBlob st fname)"
    by (auto simp: getBlob_def)
  with a show "handler cfg ev req st
        = (Some (jsonOk 201 (JObj [(''success'', JBool True), (''message'', JStr ''File saved.'')])),
           st(fname \<mapsto> b))"
    using post_replaces [OF assms] by blast
qed

theorem post_creates_or_replaces_witness:
  "(\<exists>gs. map_of gs ''name'' = Some (JStr ''loc1'')
         \<and> map_of gs ''id'' = Some (JStr (freshId sampleEnv))
         \<and> map_of gs ''createdAt'' = Some (JStr (nowIso sampleEnv))
         \<and> map_of gs ''createdBy'' = Some (JStr ''admin'')
         \<and> handler sampleConfig sampleEnv
              (sampleRequest ''POST'' ''tickets.json'' None (Some (JObj [(''name'', JStr ''loc1'')])))
              Map.empty
            = (Some (jsonOk 201 (JObj [(''success'', JBool True),
                                        (''message'', JStr ''Record created.''),
                                        (''record'', JObj gs)])),
               Map.empty(''tickets.json'' \<mapsto> JArr [JObj gs])))
   \<and> handler sampleConfig sampleEnv
        (sampleRequest ''POST'' ''tickets.json'' None (Some (JArr [JNum 1])))
        (Map.empty(''tickets.json'' \<mapsto> JArr [JNum 0]))
      = (Some (jsonOk 201 (JObj [(''success'', JBool True), (''message'', JStr ''File saved.'')])),
         Map.empty(''tickets.json'' \<mapsto> JArr [JNum 1]))"
proof -
  have auth: "authorizedAs sampleConfig (sampleRequest ''POST'' ''tickets.json'' rid b)
                adminKey ''tickets.json''" for rid b
    by (rule sample_authorized) (simp_all add: operationOf_def admin_allowSet_tickets)
  have m: "req_method (sampleRequest ''POST'' ''tickets.json'' rid b) = ''POST''" for rid b
    by (simp add: sampleRequest_def)
  have "\<exists>gs R. getRoleFromKey adminKey = Some R
          \<and> map_of gs = (map_of [(''name'', JStr ''loc1'')])
               (''id'' \<mapsto> JStr (freshId sampleEnv),
                ''createdAt'' \<mapsto> JStr (nowIso sampleEnv),
                ''createdBy'' \<mapsto> JStr R)
          \<and> handler sampleConfig sampleEnv
               (sampleRequest ''POST'' ''tickets.json'' None (Some (JObj [(''name'', JStr ''loc1'')])))
               Map.empty
             = (Some (jsonOk 201 (JObj [(''success'', JBool True),
                                         (''message'', JStr ''Record created.''),
                                         (''record'', JObj gs)])),
                Map.empty(''tickets.json'' \<mapsto> JArr ([] @ [JObj gs])))"
    using post_creates_or_replaces [OF auth m, of None "Some (JObj [(''name'', JStr ''loc1'')])"
            Map.empty sampleEnv, THEN conjunct1, rule_format, of "[(''name'', JStr ''loc1'')]" "[]"]
    by (simp add: sampleRequest_def getBlob_def)
  then obtain gs where
    gs: "map_of gs = (map_of [(''name'', JStr ''loc1'')])
               (''id'' \<mapsto> JStr (freshId sampleEnv),
                ''createdAt'' \<mapsto> JStr (nowIso sampleEnv),
                ''createdBy'' \<mapsto> JStr ''admin'')"
    and h: "handler sampleConfig sampleEnv
               (sampleRequest ''POST'' ''tickets.json'' None (Some (JObj [(''name'', JStr ''loc1'')])))
               Map.empty
             = (Some (jsonOk 201 (JObj [(''success'', JBool True),
                                         (''message'', JStr ''Record created.''),
                                         (''record'', JObj gs)])),
                Map.empty(''tickets.json'' \<mapsto> JArr [JObj gs]))"
    using adminKey_role by auto
  have first: "\<exists>gs. map_of gs ''name'' = Some (JStr ''loc1'')
         \<and> map_of gs ''id'' = Some (JStr (freshId sampleEnv))
         \<and> map_of gs ''createdAt'' = Some (JStr (nowIso sampleEnv))
         \<and> map_of gs ''createdBy'' = Some (JStr ''admin'')
         \<and> handler sampleConfig sampleEnv
              (sampleRequest ''POST'' ''tickets.json'' None (Some (JObj [(''name'', JStr ''loc1'')])))
              Map.empty
            = (Some (jsonOk 201 (JObj [(''success'', JBool True),
                                        (''message'', JStr ''Record created.''),
                                        (''record'', JObj gs)])),
               Map.empty(''tickets.json'' \<mapsto> JArr [JObj gs]))"
    using h by (intro exI [of _ gs]) (simp add: gs)
  have second: "handler sampleConfig sampleEnv
        (sampleRequest ''POST'' ''tickets.json'' None (Some (JArr [JNum 1])))
        (Map.empty(''tickets.json'' \<mapsto> JArr [JNum 0]))
      = (Some (jsonOk 201 (JObj [(''success'', JBool True), (''message'', JStr ''File saved.'')])),
         Map.empty(''tickets.json'' \<mapsto> JArr [JNum 1]))"
    using post_creates_or_replaces [OF auth m, of None "Some (JArr [JNum 1])"
            "Map.empty(''tickets.json'' \<mapsto> JArr [JNum 0])" sampleEnv,
            THEN conjunct2, rule_format, of "JArr [JNum 1]" JNull]
    by (simp add: sampleRequest_def)
  from first second show ?thesis by blast
qed

text \<open>
  C5 as stated fails on a stored document that holds JSON \<^verbatim>\<open>null\<close>: it is no array, yet a
  POST with an object body does not replace the file with the body; the gateway appends
  the created record to an empty array.
\<close>

theorem post_on_null_document_appends:
  "(Map.empty(''tickets.json'' \<mapsto> JNull)) ''tickets.json'' = Some JNull
   \<and> \<not> isArray JNull
   \<and> snd (handler sampleConfig sampleEnv
        (sampleRequest ''POST'' ''tickets.json'' None (Some (JObj [(''name'', JStr ''loc1'')])))
        (Map.empty(''tickets.json'' \<mapsto> JNull))) ''tickets.json''
     = Some (JArr [JObj [(''name'', JStr ''loc1''), (''id'', JStr ''1770292800000-k3j9x2m1q''),
                         (''createdAt'', JStr ''2026-02-05T12:00:00.000Z''),
                         (''createdBy'', JStr ''admin'')]])
   \<and> snd (handler sampleConfig sampleEnv
        (sampleRequest ''POST'' ''tickets.json'' None (Some (JObj [(''name'', JStr ''loc1'')])))
        (Map.empty(''tickets.json'' \<mapsto> JNull))) ''tickets.json''
     \<noteq> Some (JObj [(''name'', JStr ''loc1'')])"
proof -
  have auth: "authorizedAs sampleConfig (sampleRequest ''POST'' ''tickets.json'' rid b)
                adminKey ''tickets.json''" for rid b
    by (rule sample_authorized) (simp_all add: operationOf_def admin_allowSet_tickets)
  show ?thesis
    unfolding handler_authorized [OF auth]
    by (simp add: tryCatch_def dispatch_def sampleRequest_def sampleEnv_def handlePost_def
          truthyOpt_def getBlob_def createdRecord_def assignAll_def roleJson_def adminKey_role
          saveBlob_def Let_def)
qed

section \<open>Deleting a record\<close>

lemma removeRecords_clean:
  "removeRecords xs rid = Inr ys \<Longrightarrow>
     findRecord ys rid = Inr None \<and> removeRecords ys rid = Inr ys
     \<and> list_all (\<lambda>y. matchesId y rid = Inr False) ys"
proof (induction xs arbitrary: ys)
  case Nil
  then show ?case by simp
next
  case (Cons x xs)
  from Cons.prems obtain m zs where m: "matchesId x rid = Inr m"
    and zs: "removeRecords xs rid = Inr zs" and ys: "ys = (if m then zs else x # zs)"
    by (auto split: sum.splits)
  from Cons.IH [OF zs] show ?case
    using m ys by auto
qed

lemma delete_allows_read: "D \<in> allowSet R Delete \<Longrightarrow> D \<in> allowSet R Read"
  by (auto simp: allowSet_def FILE_PERMISSIONS_def split: if_splits)

lemma apiKeyHeader_method: "apiKeyHeader (req\<lparr>req_method := m\<rparr>) = apiKeyHeader req"
  by (simp add: apiKeyHeader_def split: option.splits)

lemma authorized_delete_may_read:
  assumes "authorizedAs cfg req apiKey fname" "req_method req = ''DELETE''"
  shows "authorizedAs cfg (req\<lparr>req_method := ''GET''\<rparr>) apiKey fname"
proof -
  from authorized_role [OF assms(1)] assms(2) obtain R
    where R: "getRoleFromKey apiKey = Some R" and d: "fname \<in> allowSet R Delete"
    by (auto simp: operationOf_def)
  have "hasPermission apiKey fname Read"
    using hasPermission_role [OF R] delete_allows_read [OF d] by simp
  with assms(1) show ?thesis
    by (simp add: authorizedAs_def apiKeyHeader_method operationOf_def)
qed

text \<open>
  C7. On an array-typed document, once a DELETE of a record id has been answered 200, a
  GET of the same id on the resulting document is answered 404 and the same DELETE
  again is answered 404 and changes nothing; the resulting document is an array in which
  no item matches the id under \<^verbatim>\<open>id\<close>, \<^verbatim>\<open>_id\<close> or \<^verbatim>\<open>profileId\<close>. (A key that may delete
  a document may read it, so the GET passes the permission check. Were the id the empty
  string, the DELETE would remove the whole document, and both answers are 404 as well.)
\<close>

theorem delete_then_gone:
  assumes "authorizedAs cfg req apiKey fname" and "req_method req = ''DELETE''"
      and "req_id req = Some rid"
      and "st fname = Some (JArr xs)"
      and "statusOf (handler cfg ev req st) = Some 200"
  shows "statusOf (handler cfg ev' (req\<lparr>req_method := ''GET''\<rparr>) (snd (handler cfg ev req st)))
           = Some 404
       \<and> statusOf (handler cfg ev' req (snd (handler cfg ev req st))) = Some 404
       \<and> snd (handler cfg ev' req (snd (handler cfg ev req st))) = snd (handler cfg ev req st)
       \<and> (rid \<noteq> [] \<longrightarrow>
            (\<exists>ys. snd (handler cfg ev req st) fname = Some (JArr ys)
                 \<and> list_all (\<lambda>y. matchesId y rid = Inr False) ys))"
proof -
  note authG = authorized_delete_may_read [OF assms(1,2)]
  have hD: "handler cfg e req s = tryCatch s (Inr (Some (fst r), snd r))"
    if "handleDelete s fname (req_id req) = Inr r" for e s r
    unfolding handler_authorized [OF assms(1)] using that assms(2)
    by (simp add: dispatch_def)
  have hG: "handler cfg e (req\<lparr>req_method := ''GET''\<rparr>) s = tryCatch s (Inr (Some (fst r), snd r))"
    if "handleGet s fname (req_id req) = Inr r" for e s r
    unfolding handler_authorized [OF authG] using that
    by (simp add: dispatch_def)
  show ?thesis
  proof (cases "rid = []")
    case True
    have d1: "handleDelete st fname (req_id req)
              = Inr (jsonOk 200 (JObj [(''success'', JBool True), (''message'', JStr ''File deleted.'')]),
                     st(fname := None))"
      using assms(3,4) True by (simp add: handleDelete_def truthyStr_def deleteBlob_def)
    have st': "snd (handler cfg ev req st) = st(fname := None)"
      unfolding hD [OF d1] by (simp add: tryCatch_def)
    have g: "handleGet (st(fname := None)) fname (req_id req)
             = Inr (jsonError 404 ''Not Found'' (fname @ '' not found.''), st(fname := None))"
      by (simp add: handleGet_def getBlob_def)
    have d2: "handleDelete (st(fname := None)) fname (req_id req)
              = Inr (jsonOk 404 (JObj [(''success'', JBool False), (''message'', JStr ''File not found.'')]),
                     st(fname := None))"
      using assms(3) True by (simp add: handleDelete_def truthyStr_def deleteBlob_def)
    show ?thesis
      unfolding st' hG [OF g] hD [OF d2] using True
      by (simp add: tryCatch_def statusOf_def jsonError_def jsonOk_def)
  next
    case False
    then have t: "truthyStr (req_id req) = Some rid"
      using assms(3) by (simp add: truthyStr_def)
    show ?thesis
    proof (cases "removeRecords xs rid")
      case (Inl e)
      then have "handler cfg ev req st = tryCatch st (Inl e)"
        unfolding handler_authorized [OF assms(1)] using assms(2,4) t
        by (simp add: dispatch_def handleDelete_def getBlob_def)
      with assms(5) show ?thesis
        by (cases e) (simp add: tryCatch_def statusOf_def jsonError_def)
    next
      case (Inr ys)
      show ?thesis
      proof (cases "length ys = length xs")
        case True
        have "handleDelete st fname (req_id req)
              = Inr (jsonError 404 ''Not Found'' (''Record '' @ rid @ '' not found.''), st)"
          using assms(4) t Inr True by (simp add: handleDelete_def getBlob_def)
        from hD [OF this] assms(5) show ?thesis
          by (simp add: tryCatch_def statusOf_def jsonError_def)
      next
        case False
        have d1: "handleDelete st fname (req_id req)
                  = Inr (jsonOk 200 (JObj [(''success'', JBool True),
                                           (''message'', JStr ''Record deleted.'')]),
                         st(fname \<mapsto> JArr ys))"
          using assms(4) t Inr False by (simp add: handleDelete_def getBlob_def saveBlob_def)
        have st': "snd (handler cfg ev req st) = st(fname \<mapsto> JArr ys)"
          unfolding hD [OF d1] by (simp add: tryCatch_def)
        note clean = removeRecords_clean [OF Inr]
        have g: "handleGet (st(fname \<mapsto> JArr ys)) fname (req_id req)
                 = Inr (jsonError 404 ''Not Found'' (''Record '' @ rid @ '' not found.''),
                        st(fname \<mapsto> JArr ys))"
          using t clean by (simp add: handleGet_def getBlob_def)
        have d2: "handleDelete (st(fname \<mapsto> JArr ys)) fname (req_id req)
                  = Inr (jsonError 404 ''Not Found'' (''Record '' @ rid @ '' not found.''),
                         st(fname \<mapsto> JArr ys))"
          using t clean by (simp add: handleDelete_def getBlob_def)
        show ?thesis
          unfolding st' hG [OF g] hD [OF d2] using clean
          by (simp add: tryCatch_def statusOf_def jsonError_def)
      qed
    qed
  qed
qed

theorem delete_then_gone_witness:
  "statusOf (handler sampleConfig sampleEnv (sampleRequest ''DELETE'' ''tickets.json'' (Some ''r1'') None)
       (Map.empty(''tickets.json'' \<mapsto>
          JArr [JObj [(''id'', JStr ''r1'')], JObj [(''id'', JStr ''r2''), (''profileId'', JStr ''r1'')],
                JObj [(''id'', JStr ''r3'')]]))) = Some 200
   \<and> statusOf (handler sampleConfig sampleEnv
        ((sampleRequest ''DELETE'' ''tickets.json'' (Some ''r1'') None)\<lparr>req_method := ''GET''\<rparr>)
        (snd (handler sampleConfig sampleEnv
               (sampleRequest ''DELETE'' ''tickets.json'' (Some ''r1'') None)
               (Map.empty(''tickets.json'' \<mapsto>
                  JArr [JObj [(''id'', JStr ''r1'')],
                        JObj [(''id'', JStr ''r2''), (''profileId'', JStr ''r1'')],
                        JObj [(''id'', JStr ''r3'')]]))))) = Some 404
   \<and> statusOf (handler sampleConfig sampleEnv
        (sampleRequest ''DELETE'' ''tickets.json'' (Some ''r1'') None)
        (snd (handler sampleConfig sampleEnv
               (sampleRequest ''DELETE'' ''tickets.json'' (Some ''r1'') None)
               (Map.empty(''tickets.json'' \<mapsto>
                  JArr [JObj [(''id'', JStr ''r1'')],
                        JObj [(''id'', JStr ''r2''), (''profileId'', JStr ''r1'')],
                        JObj [(''id'', JStr ''r3'')]]))))) = Some 404"
proof -
  have auth: "authorizedAs sampleConfig (sampleRequest ''DELETE'' ''tickets.json'' (Some ''r1'') None)
                adminKey ''tickets.json''"
    by (rule sample_authorized) (simp_all add: operationOf_def admin_allowSet_tickets)
  have ok: "statusOf (handler sampleConfig sampleEnv
       (sampleRequest ''DELETE'' ''tickets.json'' (Some ''r1'') None)
       (Map.empty(''tickets.json'' \<mapsto>
          JArr [JObj [(''id'', JStr ''r1'')], JObj [(''id'', JStr ''r2''), (''profileId'', JStr ''r1'')],
                JObj [(''id'', JStr ''r3'')]]))) = Some 200"
    unfolding handler_authorized [OF auth]
    by (simp add: tryCatch_def dispatch_def sampleRequest_def handleDelete_def truthyStr_def
          getBlob_def matchesId_def saveBlob_def statusOf_def jsonOk_def)
  from delete_then_gone [OF auth _ _ _ ok, of "''r1''" _ sampleEnv] ok show ?thesis
    by (simp add: sampleRequest_def)
qed

section \<open>Monthly merge\<close>

text \<open>
  The guard of the loop body: an incoming price of zero leaves a stored record with a
  positive price as it is and counts as unchanged.
\<close>

lemma mergeRecord_zero_guard:
  assumes "map_of dbdata (f_iso r) = Some bucket"
      and "findIndex (\<lambda>e. storedKey e = fetchedKey r) bucket = Some i"
      and "positivePrice (m_avg_da_lmp (bucket ! i))"
      and "m_avg_da_lmp (normalize r) = Some 0"
  shows "mergeRecord (dbdata, s) r = (dbdata, s\<lparr>unchanged := unchanged s + 1\<rparr>)"
  using assms by (simp add: mergeRecord_def Let_def)

text \<open>
  C2. An incoming zero price must not overwrite a stored non-zero price. The guard
  tests \<^verbatim>\<open>existing.avg_da_lmp > 0\<close>, so it protects positive prices only: on a stored
  price of \<open>-5\<close>, the incoming zero for the same key replaces the record and is counted
  as updated.
\<close>

theorem zero_overwrites_negative_price:
  "mergeMonthlyData
     \<lparr>db_data = [(''PJM'',
        [\<lparr>m_iso = ''PJM'', m_zone = ''AECO'', m_zone_id = ''AECO'', m_year = ''2025'',
          m_month = ''01'', m_avg_da_lmp = Some (-5), m_min_price = -9, m_max_price = 3,
          m_record_count = 744\<rparr>])],
      db_hourly = None\<rparr>
     [\<lparr>f_iso = ''PJM'', f_zone = ''AECO'', f_zone_id = Some ''AECO'', f_year = Str ''2025'',
       f_month = Str ''01'', f_avg_da_lmp = Some 0, f_lmp = None, f_min_price = Some 0,
       f_max_price = Some 0, f_record_count = Some 744\<rparr>]
   = (\<lparr>db_data = [(''PJM'',
        [\<lparr>m_iso = ''PJM'', m_zone = ''AECO'', m_zone_id = ''AECO'', m_year = ''2025'',
          m_month = ''01'', m_avg_da_lmp = Some 0, m_min_price = 0, m_max_price = 0,
          m_record_count = 744\<rparr>])],
       db_hourly = None\<rparr>,
      \<lparr>added = 0, updated = 1, unchanged = 0\<rparr>)"
  by (simp add: mergeMonthlyData_def mergeRecord_def fetchedKey_def storedKey_def monthlyKey_def
        normalize_def truthyStr_def padStart2_def orZero_def orNum_def positivePrice_def
        sortRecords_def Let_def)

text \<open>
  For contrast, the same record with the month already padded, as the hourly fetcher
  writes it: the second run finds it and counts it as unchanged.
\<close>

lemma second_run_unchanged_when_padded:
  "mergeMonthlyData
     (fst (mergeMonthlyData \<lparr>db_data = [], db_hourly = None\<rparr>
        [\<lparr>f_iso = ''PJM'', f_zone = ''AECO'', f_zone_id = Some ''AECO'', f_year = Str ''2025'',
          f_month = Str ''01'', f_avg_da_lmp = Some 42, f_lmp = None, f_min_price = Some 30,
          f_max_price = Some 55, f_record_count = Some 744\<rparr>]))
     [\<lparr>f_iso = ''PJM'', f_zone = ''AECO'', f_zone_id = Some ''AECO'', f_year = Str ''2025'',
       f_month = Str ''01'', f_avg_da_lmp = Some 42, f_lmp = None, f_min_price = Some 30,
       f_max_price = Some 55, f_record_count = Some 744\<rparr>]
   = (fst (mergeMonthlyData \<lparr>db_data = [], db_hourly = None\<rparr>
        [\<lparr>f_iso = ''PJM'', f_zone = ''AECO'', f_zone_id = Some ''AECO'', f_year = Str ''2025'',
          f_month = Str ''01'', f_avg_da_lmp = Some 42, f_lmp = None, f_min_price = Some 30,
          f_max_price = Some 55, f_record_count = Some 744\<rparr>]),
      \<lparr>added = 0, updated = 0, unchanged = 1\<rparr>)"
  by (simp add: mergeMonthlyData_def mergeRecord_def fetchedKey_def storedKey_def monthlyKey_def
        normalize_def truthyStr_def padStart2_def orZero_def orNum_def positivePrice_def
        sortRecords_def Let_def)

text \<open>
  C3. A second run with the same incoming list must change nothing and count every
  record as unchanged. The loop looks the record up under the key of the fetched record
  as it came, while the stored record carries the normalised month: a record of the
  monthly fetcher, whose month is \<^verbatim>\<open>"1"\<close>, is stored under \<^verbatim>\<open>"01"\<close>, is not found by the
  second run, and is added again.
\<close>

theorem second_run_adds_again:
  "mergeMonthlyData \<lparr>db_data = [], db_hourly = None\<rparr>
     [\<lparr>f_iso = ''PJM'', f_zone = ''51291_AECO'', f_zone_id = None, f_year = Str ''2025'',
       f_month = Str ''1'', f_avg_da_lmp = None, f_lmp = Some 42, f_min_price = None,
       f_max_price = None, f_record_count = None\<rparr>]
   = (\<lparr>db_data = [(''PJM'',
        [\<lparr>m_iso = ''PJM'', m_zone = ''51291_AECO'', m_zone_id = ''51291_AECO'',
          m_year = ''2025'', m_month = ''01'', m_avg_da_lmp = Some 42, m_min_price = 0,
          m_max_price = 0, m_record_count = 0\<rparr>])],
       db_hourly = None\<rparr>,
      \<lparr>added = 1, updated = 0, unchanged = 0\<rparr>)
   \<and> mergeMonthlyData
     \<lparr>db_data = [(''PJM'',
        [\<lparr>m_iso = ''PJM'', m_zone = ''51291_AECO'', m_zone_id = ''51291_AECO'',
          m_year = ''2025'', m_month = ''01'', m_avg_da_lmp = Some 42, m_min_price = 0,
          m_max_price = 0, m_record_count = 0\<rparr>])],
      db_hourly = None\<rparr>
     [\<lparr>f_iso = ''PJM'', f_zone = ''51291_AECO'', f_zone_id = None, f_year = Str ''2025'',
       f_month = Str ''1'', f_avg_da_lmp = None, f_lmp = Some 42, f_min_price = None,
       f_max_price = None, f_record_count = None\<rparr>]
   = (\<lparr>db_data = [(''PJM'',
        [\<lparr>m_iso = ''PJM'', m_zone = ''51291_AECO'', m_zone_id = ''51291_AECO'',
          m_year = ''2025'', m_month = ''01'', m_avg_da_lmp = Some 42, m_min_price = 0,
          m_max_price = 0, m_record_count = 0\<rparr>,
         \<lparr>m_iso = ''PJM'', m_zone = ''51291_AECO'', m_zone_id = ''51291_AECO'',
          m_year = ''2025'', m_month = ''01'', m_avg_da_lmp = Some 42, m_min_price = 0,
          m_max_price = 0, m_record_count = 0\<rparr>])],
       db_hourly = None\<rparr>,
      \<lparr>added = 1, updated = 0, unchanged = 0\<rparr>)"
  by (simp add: mergeMonthlyData_def mergeRecord_def fetchedKey_def storedKey_def monthlyKey_def
        normalize_def truthyStr_def padStart2_def orZero_def orNum_def positivePrice_def
        sortRecords_def Let_def)

section \<open>Hourly merge\<close>

lemma not_hasNonZero: "\<not> hasNonZero records \<longleftrightarrow> allZero records"
  by (induction records) (auto simp: hasNonZero_def allZero_def)

lemma hasNonZero_nonempty: "hasNonZero records \<Longrightarrow> records \<noteq> []"
  by (auto simp: hasNonZero_def)

text \<open>One turn of the inner loop, by the three kinds of block.\<close>

lemma mergeBlock_cases:
  "mergeBlock (months, s) (ym, records) =
     (if hasNonZero records then
        (AList.update ym records months,
         (if map_of months ym = None
          then s\<lparr>addedMonths := addedMonths s + 1\<rparr>
          else s\<lparr>updatedMonths := updatedMonths s + 1\<rparr>)
           \<lparr>totalRecords := totalRecords s + length records\<rparr>)
      else if records = [] then (months, s)
      else (months, s\<lparr>skippedMonths := skippedMonths s + 1\<rparr>))"
  by (auto simp: mergeBlock_def Let_def hasNonZero_def)

lemma inner_loop:
  assumes "distinct (map fst md)"
  shows "map_of (fst (foldl mergeBlock (months, s) md)) ym
           = (case map_of md ym of
                None \<Rightarrow> map_of months ym
              | Some records \<Rightarrow> if hasNonZero records then Some records else map_of months ym)
       \<and> skippedMonths (snd (foldl mergeBlock (months, s) md))
           = skippedMonths s + length (filter (\<lambda>b. snd b \<noteq> [] \<and> allZero (snd b)) md)
       \<and> addedMonths (snd (foldl mergeBlock (months, s) md))
           = addedMonths s
             + length (filter (\<lambda>b. hasNonZero (snd b) \<and> map_of months (fst b) = None) md)
       \<and> updatedMonths (snd (foldl mergeBlock (months, s) md))
           = updatedMonths s
             + length (filter (\<lambda>b. hasNonZero (snd b) \<and> map_of months (fst b) \<noteq> None) md)"
  using assms
proof (induction md arbitrary: months s)
  case Nil
  then show ?case by simp
next
  case (Cons b md)
  obtain k records where b: "b = (k, records)" by (cases b)
  from Cons.prems have k: "k \<notin> fst ` set md" and d: "distinct (map fst md)"
    by (auto simp: b)
  then have none: "map_of md k = None"
    by (simp add: map_of_eq_None_iff)
  obtain m1 s1 where step: "mergeBlock (months, s) (k, records) = (m1, s1)"
    by (cases "mergeBlock (months, s) (k, records)")
  have m1: "map_of m1 = (if hasNonZero records then (map_of months)(k \<mapsto> records) else map_of months)"
    using step by (auto simp: mergeBlock_cases update_conv' split: if_splits)
  have same: "map_of m1 (fst c) = map_of months (fst c)" if "c \<in> set md" for c
    using that k m1 by (auto simp: image_iff)
  have fa: "filter (\<lambda>c. hasNonZero (snd c) \<and> map_of m1 (fst c) = None) md
            = filter (\<lambda>c. hasNonZero (snd c) \<and> map_of months (fst c) = None) md"
    by (rule filter_cong) (simp_all add: same)
  have fu: "filter (\<lambda>c. hasNonZero (snd c) \<and> map_of m1 (fst c) \<noteq> None) md
            = filter (\<lambda>c. hasNonZero (snd c) \<and> map_of months (fst c) \<noteq> None) md"
    by (rule filter_cong) (simp_all add: same)
  have s1: "skippedMonths s1 = skippedMonths s + (if records \<noteq> [] \<and> allZero records then 1 else 0)"
           "addedMonths s1 = addedMonths s + (if hasNonZero records \<and> map_of months k = None then 1 else 0)"
           "updatedMonths s1 = updatedMonths s + (if hasNonZero records \<and> map_of months k \<noteq> None then 1 else 0)"
    using step not_hasNonZero [of records] hasNonZero_nonempty [of records]
    by (auto simp: mergeBlock_cases split: if_splits)
  have fold: "foldl mergeBlock (months, s) (b # md) = foldl mergeBlock (m1, s1) md"
    by (simp add: b step)
  from Cons.IH [OF d, of m1 s1]
  have IHb: "map_of (fst (foldl mergeBlock (m1, s1) md)) ym
           = (case map_of md ym of
                None \<Rightarrow> map_of m1 ym
              | Some records \<Rightarrow> if hasNonZero records then Some records else map_of m1 ym)"
    and IHs: "skippedMonths (snd (foldl mergeBlock (m1, s1) md))
           = skippedMonths s1 + length (filter (\<lambda>b. snd b \<noteq> [] \<and> allZero (snd b)) md)"
    and IHa: "addedMonths (snd (foldl mergeBlock (m1, s1) md))
           = addedMonths s1
             + length (filter (\<lambda>b. hasNonZero (snd b) \<and> map_of m1 (fst b) = None) md)"
    and IHu: "updatedMonths (snd (foldl mergeBlock (m1, s1) md))
           = updatedMonths s1
             + length (filter (\<lambda>b. hasNonZero (snd b) \<and> map_of m1 (fst b) \<noteq> None) md)"
    by blast+
  have block: "map_of (fst (foldl mergeBlock (m1, s1) md)) ym
           = (case map_of (b # md) ym of
                None \<Rightarrow> map_of months ym
              | Some records \<Rightarrow> if hasNonZero records then Some records else map_of months ym)"
  proof (cases "ym = k")
    case True
    have "map_of (fst (foldl mergeBlock (m1, s1) md)) ym = map_of m1 ym"
      using IHb none True by simp
    also have "\<dots> = (if hasNonZero records then Some records else map_of months ym)"
      using True by (simp add: m1)
    finally show ?thesis
      using True by (simp add: b)
  next
    case False
    then have "map_of m1 ym = map_of months ym"
      by (simp add: m1)
    with False show ?thesis
      by (simp add: IHb b split: option.splits)
  qed
  show ?case
    unfolding fold
    by (auto simp add: block IHs IHa [unfolded fa] IHu [unfolded fu] s1 b)
qed

text \<open>One turn of the outer loop.\<close>

lemma mergeIso_result:
  "mergeIso (h, s) (k, md)
   = (let months = (case map_of h k of None \<Rightarrow> [] | Some m \<Rightarrow> m);
          r = foldl mergeBlock (months, s) md
      in (AList.update k (fst r) (case map_of h k of None \<Rightarrow> AList.update k [] h | Some m \<Rightarrow> h),
          snd r))"
  by (auto simp: mergeIso_def Let_def update_conv' split: option.splits)

lemma blockOf_months:
  "map_of (case map_of h k of None \<Rightarrow> [] | Some m \<Rightarrow> m) ym = blockOf (Some h) k ym"
  by (simp add: blockOf_def split: option.splits)

lemma mergeIso_map:
  "map_of (fst (mergeIso (h, s) (k, md)))
   = (map_of h)(k \<mapsto> fst (foldl mergeBlock ((case map_of h k of None \<Rightarrow> [] | Some m \<Rightarrow> m), s) md))"
  by (auto simp: mergeIso_result Let_def update_conv' split: option.splits)

lemma mergeIso_block:
  assumes "distinct (map fst md)"
  shows "blockOf (Some (fst (mergeIso (h, s) (k, md)))) i ym
         = (if i = k then
              (case map_of md ym of
                 None \<Rightarrow> blockOf (Some h) i ym
               | Some records \<Rightarrow>
                   if hasNonZero records then Some records else blockOf (Some h) i ym)
            else blockOf (Some h) i ym)"
proof -
  define months where "months = (case map_of h k of None \<Rightarrow> [] | Some m \<Rightarrow> m)"
  define r where "r = foldl mergeBlock (months, s) md"
  have mo: "map_of months ym = blockOf (Some h) k ym"
    unfolding months_def by (rule blockOf_months)
  have "map_of (fst r) ym
        = (case map_of md ym of
             None \<Rightarrow> map_of months ym
           | Some records \<Rightarrow> if hasNonZero records then Some records else map_of months ym)"
    unfolding r_def using inner_loop [OF assms, of months s ym] by blast
  moreover have "blockOf (Some (fst (mergeIso (h, s) (k, md)))) i ym
                 = (if i = k then map_of (fst r) ym else blockOf (Some h) i ym)"
    by (simp add: blockOf_def mergeIso_map r_def months_def)
  ultimately show ?thesis
    by (auto simp: mo split: option.splits)
qed

lemma mergeIso_stats:
  assumes "distinct (map fst md)"
  shows "skippedMonths (snd (mergeIso (h, s) (k, md)))
           = skippedMonths s + length (filter (\<lambda>b. snd b \<noteq> [] \<and> allZero (snd b)) md)
       \<and> addedMonths (snd (mergeIso (h, s) (k, md)))
           = addedMonths s
             + length (filter (\<lambda>b. hasNonZero (snd b) \<and> blockOf (Some h) k (fst b) = None) md)
       \<and> updatedMonths (snd (mergeIso (h, s) (k, md)))
           = updatedMonths s
             + length (filter (\<lambda>b. hasNonZero (snd b) \<and> blockOf (Some h) k (fst b) \<noteq> None) md)"
proof -
  define months where "months = (case map_of h k of None \<Rightarrow> [] | Some m \<Rightarrow> m)"
  have mo: "map_of months ym = blockOf (Some h) k ym" for ym
    unfolding months_def by (rule blockOf_months)
  have "snd (mergeIso (h, s) (k, md)) = snd (foldl mergeBlock (months, s) md)"
    by (simp add: mergeIso_result Let_def months_def)
  then show ?thesis
    using inner_loop [OF assms, of months s] by (simp add: mo)
qed

text \<open>The blocks of a payload, ISO by ISO.\<close>

lemma blocks_Cons:
  "blocks ((k, md) # incoming) = map (\<lambda>b. (k, fst b, snd b)) md @ blocks incoming"
  by (simp add: blocks_def)

lemma blocks_iso: "b \<in> set (blocks incoming) \<Longrightarrow> fst b \<in> fst ` set incoming"
  by (force simp: blocks_def)

lemma outer_loop:
  assumes "distinctKeys incoming"
  shows "blockOf (Some (fst (foldl mergeIso (h, s) incoming))) i ym
           = (case blockOf (Some incoming) i ym of
                None \<Rightarrow> blockOf (Some h) i ym
              | Some records \<Rightarrow>
                  if hasNonZero records then Some records else blockOf (Some h) i ym)
       \<and> skippedMonths (snd (foldl mergeIso (h, s) incoming))
           = skippedMonths s
             + length (filter (\<lambda>b. snd (snd b) \<noteq> [] \<and> allZero (snd (snd b))) (blocks incoming))
       \<and> addedMonths (snd (foldl mergeIso (h, s) incoming))
           = addedMonths s
             + length (filter (\<lambda>b. hasNonZero (snd (snd b))
                                   \<and> blockOf (Some h) (fst b) (fst (snd b)) = None)
                        (blocks incoming))
       \<and> updatedMonths (snd (foldl mergeIso (h, s) incoming))
           = updatedMonths s
             + length (filter (\<lambda>b. hasNonZero (snd (snd b))
                                   \<and> blockOf (Some h) (fst b) (fst (snd b)) \<noteq> None)
                        (blocks incoming))"
  using assms
proof (induction incoming arbitrary: h s)
  case Nil
  then show ?case by (simp add: blocks_def blockOf_def)
next
  case (Cons e incoming)
  obtain k md where e: "e = (k, md)" by (cases e)
  from Cons.prems have k: "k \<notin> fst ` set incoming" and dmd: "distinct (map fst md)"
    and d: "distinctKeys incoming"
    by (auto simp: e distinctKeys_def)
  from k have none: "map_of incoming k = None"
    by (simp add: map_of_eq_None_iff)
  obtain h1 s1 where step: "mergeIso (h, s) (k, md) = (h1, s1)"
    by (cases "mergeIso (h, s) (k, md)")
  have h1: "blockOf (Some h1) j ym'
            = (if j = k then
                 (case map_of md ym' of
                    None \<Rightarrow> blockOf (Some h) j ym'
                  | Some records \<Rightarrow>
                      if hasNonZero records then Some records else blockOf (Some h) j ym')
               else blockOf (Some h) j ym')" for j ym'
    using mergeIso_block [OF dmd, of h s k j ym'] by (simp add: step)
  have same: "blockOf (Some h1) (fst b) (fst (snd b)) = blockOf (Some h) (fst b) (fst (snd b))"
    if "b \<in> set (blocks incoming)" for b
    using blocks_iso [OF that] k h1 by auto
  have fa: "filter (\<lambda>b. hasNonZero (snd (snd b)) \<and> blockOf (Some h1) (fst b) (fst (snd b)) = None)
              (blocks incoming)
            = filter (\<lambda>b. hasNonZero (snd (snd b)) \<and> blockOf (Some h) (fst b) (fst (snd b)) = None)
              (blocks incoming)"
    by (rule filter_cong) (simp_all add: same)
  have fu: "filter (\<lambda>b. hasNonZero (snd (snd b)) \<and> blockOf (Some h1) (fst b) (fst (snd b)) \<noteq> None)
              (blocks incoming)
            = filter (\<lambda>b. hasNonZero (snd (snd b)) \<and> blockOf (Some h) (fst b) (fst (snd b)) \<noteq> None)
              (blocks incoming)"
    by (rule filter_cong) (simp_all add: same)
  have s1: "skippedMonths s1
              = skippedMonths s + length (filter (\<lambda>b. snd b \<noteq> [] \<and> allZero (snd b)) md)"
           "addedMonths s1
              = addedMonths s
                + length (filter (\<lambda>b. hasNonZero (snd b) \<and> blockOf (Some h) k (fst b) = None) md)"
           "updatedMonths s1
              = updatedMonths s
                + length (filter (\<lambda>b. hasNonZero (snd b) \<and> blockOf (Some h) k (fst b) \<noteq> None) md)"
    using mergeIso_stats [OF dmd, of h s k] by (simp_all add: step)
  have fold: "foldl mergeIso (h, s) (e # incoming) = foldl mergeIso (h1, s1) incoming"
    by (simp add: e step)
  have inc: "blockOf (Some (e # incoming)) j ym
             = (if j = k then map_of md ym else blockOf (Some incoming) j ym)" for j
    by (simp add: blockOf_def e)
  have inc_k: "blockOf (Some incoming) k ym = None"
    by (simp add: blockOf_def none)
  from Cons.IH [OF d, of h1 s1]
  have IHb: "blockOf (Some (fst (foldl mergeIso (h1, s1) incoming))) i ym
           = (case blockOf (Some incoming) i ym of
                None \<Rightarrow> blockOf (Some h1) i ym
              | Some records \<Rightarrow>
                  if hasNonZero records then Some records else blockOf (Some h1) i ym)"
    and IHs: "skippedMonths (snd (foldl mergeIso (h1, s1) incoming))
           = skippedMonths s1
             + length (filter (\<lambda>b. snd (snd b) \<noteq> [] \<and> allZero (snd (snd b))) (blocks incoming))"
    and IHa: "addedMonths (snd (foldl mergeIso (h1, s1) incoming))
           = addedMonths s1
             + length (filter (\<lambda>b. hasNonZero (snd (snd b))
                                   \<and> blockOf (Some h1) (fst b) (fst (snd b)) = None)
                        (blocks incoming))"
    and IHu: "updatedMonths (snd (foldl mergeIso (h1, s1) incoming))
           = updatedMonths s1
             + length (filter (\<lambda>b. hasNonZero (snd (snd b))
                                   \<and> blockOf (Some h1) (fst b) (fst (snd b)) \<noteq> None)
                        (blocks incoming))"
    by blast+
  have block: "blockOf (Some (fst (foldl mergeIso (h1, s1) incoming))) i ym
           = (case blockOf (Some (e # incoming)) i ym of
                None \<Rightarrow> blockOf (Some h) i ym
              | Some records \<Rightarrow>
                  if hasNonZero records then Some records else blockOf (Some h) i ym)"
  proof (cases "i = k")
    case True
    have "blockOf (Some (fst (foldl mergeIso (h1, s1) incoming))) i ym = blockOf (Some h1) i ym"
      using IHb inc_k True by simp
    also have "\<dots> = (case map_of md ym of
                         None \<Rightarrow> blockOf (Some h) i ym
                       | Some records \<Rightarrow>
                           if hasNonZero records then Some records else blockOf (Some h) i ym)"
      using h1 [of i ym] True by simp
    finally show ?thesis
      using True by (simp add: inc)
  next
    case False
    then have "blockOf (Some h1) i ym = blockOf (Some h) i ym"
      by (simp add: h1)
    with False show ?thesis
      by (simp add: IHb inc split: option.splits)
  qed
  have counts: "length (filter P (blocks (e # incoming)))
                = length (filter (\<lambda>b. P (k, fst b, snd b)) md) + length (filter P (blocks incoming))"
    for P
    by (simp add: e blocks_Cons filter_map comp_def)
  show ?case
    unfolding fold
    by (simp add: block IHs IHa [unfolded fa] IHu [unfolded fu] counts s1)
qed

lemma blockOf_default:
  "blockOf (Some (case h of None \<Rightarrow> [] | Some x \<Rightarrow> x)) i ym = blockOf h i ym"
  by (cases h) (simp_all add: blockOf_def)

text \<open>
  C6. For every database and every incoming payload (an object of objects: its keys are
  distinct, and none is a name that \<^verbatim>\<open>Object.prototype\<close> defines), after
  \<^verbatim>\<open>mergeHourlyData\<close>: (1) an incoming block whose prices are all zero leaves the block
  stored under its key untouched, and the run counts as skipped exactly the incoming
  blocks that have prices, all of them zero; (2) an incoming block with at least one
  non-zero price replaces the block stored under its key wholesale, counted as added
  when the key had no block and as updated when it had one; (3) the block under a key
  the payload does not mention is unchanged. So the block stored under any ISO and
  year-month afterwards is the incoming one when the payload has one with a non-zero
  price, and the one stored before otherwise. (A block without any record is passed
  over by the guard ahead of the zero check: nothing is stored and nothing is counted.)
  The monthly data is not touched.
\<close>

theorem mergeHourlyData_blocks:
  assumes "distinctKeys incoming" and "plainKeys incoming"
  shows "blockOf (db_hourly (fst (mergeHourlyData db (Some \<lparr>hp_data = Some incoming\<rparr>)))) isoKey ym
           = (case blockOf (Some incoming) isoKey ym of
                None \<Rightarrow> blockOf (db_hourly db) isoKey ym
              | Some records \<Rightarrow>
                  if hasNonZero records then Some records else blockOf (db_hourly db) isoKey ym)
       \<and> skippedMonths (snd (mergeHourlyData db (Some \<lparr>hp_data = Some incoming\<rparr>)))
           = length (filter (\<lambda>b. snd (snd b) \<noteq> [] \<and> allZero (snd (snd b))) (blocks incoming))
       \<and> addedMonths (snd (mergeHourlyData db (Some \<lparr>hp_data = Some incoming\<rparr>)))
           = length (filter (\<lambda>b. hasNonZero (snd (snd b))
                                 \<and> blockOf (db_hourly db) (fst b) (fst (snd b)) = None)
                      (blocks incoming))
       \<and> updatedMonths (snd (mergeHourlyData db (Some \<lparr>hp_data = Some incoming\<rparr>)))
           = length (filter (\<lambda>b. hasNonZero (snd (snd b))
                                 \<and> blockOf (db_hourly db) (fst b) (fst (snd b)) \<noteq> None)
                      (blocks incoming))
       \<and> db_data (fst (mergeHourlyData db (Some \<lparr>hp_data = Some incoming\<rparr>))) = db_data db"
proof -
  define h0 where "h0 = (case db_hourly db of None \<Rightarrow> [] | Some h \<Rightarrow> h)"
  have h0: "blockOf (Some h0) j m = blockOf (db_hourly db) j m" for j m
    unfolding h0_def by (rule blockOf_default)
  have run: "mergeHourlyData db (Some \<lparr>hp_data = Some incoming\<rparr>)
             = (db\<lparr>db_hourly := Some (fst (foldl mergeIso (h0, noHourlyStats) incoming))\<rparr>,
                snd (foldl mergeIso (h0, noHourlyStats) incoming))"
    by (simp add: mergeHourlyData_def Let_def h0_def)
  show ?thesis
    unfolding run using outer_loop [OF assms(1), of h0 noHourlyStats isoKey ym, unfolded h0]
    by (simp add: noHourlyStats_def)
qed

theorem mergeHourlyData_blocks_witness:
  "blockOf (db_hourly (fst (mergeHourlyData
      \<lparr>db_data = [],
       db_hourly = Some [(''ISONE'',
         [(''2025-01'', [\<lparr>h_dt = ''2025-01-01T00:00:00'', h_p = 31, h_z = ''4001_Maine''\<rparr>]),
          (''2025-02'', [\<lparr>h_dt = ''2025-02-01T00:00:00'', h_p = 40, h_z = ''4001_Maine''\<rparr>])])]\<rparr>
      (Some \<lparr>hp_data = Some
         [(''ISONE'',
           [(''2025-01'', [\<lparr>h_dt = ''2025-01-01T00:00:00'', h_p = 35, h_z = ''4001_Maine''\<rparr>,
                           \<lparr>h_dt = ''2025-01-01T01:00:00'', h_p = 0, h_z = ''4001_Maine''\<rparr>]),
            (''2025-03'', [\<lparr>h_dt = ''2025-03-01T00:00:00'', h_p = 0, h_z = ''4001_Maine''\<rparr>]),
            (''2025-04'', [])]),
          (''PJM'',
           [(''2025-01'', [\<lparr>h_dt = ''2025-01-01T00:00:00'', h_p = 28, h_z = ''AECO''\<rparr>])])]\<rparr>))))
     ''ISONE'' ''2025-02''
   = Some [\<lparr>h_dt = ''2025-02-01T00:00:00'', h_p = 40, h_z = ''4001_Maine''\<rparr>]
   \<and> skippedMonths (snd (mergeHourlyData
      \<lparr>db_data = [],
       db_hourly = Some [(''ISONE'',
         [(''2025-01'', [\<lparr>h_dt = ''2025-01-01T00:00:00'', h_p = 31, h_z = ''4001_Maine''\<rparr>]),
          (''2025-02'', [\<lparr>h_dt = ''2025-02-01T00:00:00'', h_p = 40, h_z = ''4001_Maine''\<rparr>])])]\<rparr>
      (Some \<lparr>hp_data = Some
         [(''ISONE'',
           [(''2025-01'', [\<lparr>h_dt = ''2025-01-01T00:00:00'', h_p = 35, h_z = ''4001_Maine''\<rparr>,
                           \<lparr>h_dt = ''2025-01-01T01:00:00'', h_p = 0, h_z = ''4001_Maine''\<rparr>]),
            (''2025-03'', [\<lparr>h_dt = ''2025-03-01T00:00:00'', h_p = 0, h_z = ''4001_Maine''\<rparr>]),
            (''2025-04'', [])]),
          (''PJM'',
           [(''2025-01'', [\<lparr>h_dt = ''2025-01-01T00:00:00'', h_p = 28, h_z = ''AECO''\<rparr>])])]\<rparr>)))
     = 1
   \<and> addedMonths (snd (mergeHourlyData
      \<lparr>db_data = [],
       db_hourly = Some [(''ISONE'',
         [(''2025-01'', [\<lparr>h_dt = ''2025-01-01T00:00:00'', h_p = 31, h_z = ''4001_Maine''\<rparr>]),
          (''2025-02'', [\<lparr>h_dt = ''2025-02-01T00:00:00'', h_p = 40, h_z = ''4001_Maine''\<rparr>])])]\<rparr>
      (Some \<lparr>hp_data = Some
         [(''ISONE'',
           [(''2025-01'', [\<lparr>h_dt = ''2025-01-01T00:00:00'', h_p = 35, h_z = ''4001_Maine''\<rparr>,
                           \<lparr>h_dt = ''2025-01-01T01:00:00'', h_p = 0, h_z = ''4001_Maine''\<rparr>]),
            (''2025-03'', [\<lparr>h_dt = ''2025-03-01T00:00:00'', h_p = 0, h_z = ''4001_Maine''\<rparr>]),
            (''2025-04'', [])]),
          (''PJM'',
           [(''2025-01'', [\<lparr>h_dt = ''2025-01-01T00:00:00'', h_p = 28, h_z = ''AECO''\<rparr>])])]\<rparr>)))
     = 1
   \<and> updatedMonths (snd (mergeHourlyData
      \<lparr>db_data = [],
       db_hourly = Some [(''ISONE'',
         [(''2025-01'', [\<lparr>h_dt = ''2025-01-01T00:00:00'', h_p = 31, h_z = ''4001_Maine''\<rparr>]),
          (''2025-02'', [\<lparr>h_dt = ''2025-02-01T00:00:00'', h_p = 40, h_z = ''4001_Maine''\<rparr>])])]\<rparr>
      (Some \<lparr>hp_data = Some
         [(''ISONE'',
           [(''2025-01'', [\<lparr>h_dt = ''2025-01-01T00:00:00'', h_p = 35, h_z = ''4001_Maine''\<rparr>,
                           \<lparr>h_dt = ''2025-01-01T01:00:00'', h_p = 0, h_z = ''4001_Maine''\<rparr>]),
            (''2025-03'', [\<lparr>h_dt = ''2025-03-01T00:00:00'', h_p = 0, h_z = ''4001_Maine''\<rparr>]),
            (''2025-04'', [])]),
          (''PJM'',
           [(''2025-01'', [\<lparr>h_dt = ''2025-01-01T00:00:00'', h_p = 28, h_z = ''AECO''\<rparr>])])]\<rparr>)))
     = 1"
proof -
  have d: "distinctKeys
         [(''ISONE'',
           [(''2025-01'', [\<lparr>h_dt = ''2025-01-01T00:00:00'', h_p = 35, h_z = ''4001_Maine''\<rparr>,
                           \<lparr>h_dt = ''2025-01-01T01:00:00'', h_p = 0, h_z = ''4001_Maine''\<rparr>]),
            (''2025-03'', [\<lparr>h_dt = ''2025-03-01T00:00:00'', h_p = 0, h_z = ''4001_Maine''\<rparr>]),
            (''2025-04'', [])]),
          (''PJM'',
           [(''2025-01'', [\<lparr>h_dt = ''2025-01-01T00:00:00'', h_p = 28, h_z = ''AECO''\<rparr>])])]"
    by (simp add: distinctKeys_def)
  have p: "plainKeys
         [(''ISONE'',
           [(''2025-01'', [\<lparr>h_dt = ''2025-01-01T00:00:00'', h_p = 35, h_z = ''4001_Maine''\<rparr>,
                           \<lparr>h_dt = ''2025-01-01T01:00:00'', h_p = 0, h_z = ''4001_Maine''\<rparr>]),
            (''2025-03'', [\<lparr>h_dt = ''2025-03-01T00:00:00'', h_p = 0, h_z = ''4001_Maine''\<rparr>]),
            (''2025-04'', [])]),
          (''PJM'',
           [(''2025-01'', [\<lparr>h_dt = ''2025-01-01T00:00:00'', h_p = 28, h_z = ''AECO''\<rparr>])])]"
    by (simp add: plainKeys_def objectPrototypeKeys_def)
  show ?thesis
    using mergeHourlyData_blocks [OF d p, of _ "''ISONE''" "''2025-02''"]
    by (simp add: blockOf_def blocks_def hasNonZero_def allZero_def)
qed

text \<open>
  The guard ahead of the zero check: a block without any record is not counted as
  skipped.
\<close>

lemma empty_block_passed_over:
  "skippedMonths (snd (mergeHourlyData \<lparr>db_data = [], db_hourly = None\<rparr>
        (Some \<lparr>hp_data = Some [(''ISONE'', [(''2025-01'', [])])]\<rparr>))) = 0"
  by (simp add: mergeHourlyData_def mergeIso_def mergeBlock_def noHourlyStats_def Let_def)

end
